theory Spec2Isabelle
  imports Main "HOL-Library.Multiset"
begin

section \<open>Python errors and the random module\<close>

text \<open>The exceptions the modelled code can raise; a raise is the \<open>Inl\<close> branch of a sum.\<close>

datatype py_error = IndexError | KeyError | TypeError | AttributeError | ZeroDivisionError

text \<open>
  The state of Python's \<^verbatim>\<open>random\<close> module is an explicit stream of raw draws;
  \<^verbatim>\<open>randbelow(n)\<close> takes the next draw modulo \<open>n\<close>. \<^verbatim>\<open>random.randint(a, b)\<close> is
  \<^verbatim>\<open>a + randbelow(b - a + 1)\<close>, \<^verbatim>\<open>random.choice(seq)\<close> is \<^verbatim>\<open>seq[randbelow(len(seq))]\<close>
  and \<^verbatim>\<open>random.shuffle(x)\<close> is the standard library's loop
  \<^verbatim>\<open>for i in reversed(range(1, len(x))): j = randbelow(i + 1); x[i], x[j] = x[j], x[i]\<close>.
\<close>

text \<open>Sequencing of a step that may raise: the exception propagates.\<close>

definition try_bind :: "'e + 'a \<Rightarrow> ('a \<Rightarrow> 'e + 'b) \<Rightarrow> 'e + 'b" where
  "try_bind m f = (case m of Inl e \<Rightarrow> Inl e | Inr x \<Rightarrow> f x)"

type_synonym rng = "nat \<Rightarrow> nat"

definition randbelow :: "nat \<Rightarrow> rng \<Rightarrow> nat \<times> rng" where
  "randbelow n rnd = (rnd 0 mod n, (\<lambda>k. rnd (Suc k)))"

definition randint :: "int \<Rightarrow> int \<Rightarrow> rng \<Rightarrow> int \<times> rng" where
  "randint a b rnd = (case randbelow (nat (b - a + 1)) rnd of (r, rnd') \<Rightarrow> (a + int r, rnd'))"

definition swap :: "nat \<Rightarrow> nat \<Rightarrow> 'a list \<Rightarrow> 'a list" where
  "swap i j xs = xs[i := xs ! j, j := xs ! i]"

fun shuffle_from :: "nat \<Rightarrow> rng \<Rightarrow> 'a list \<Rightarrow> 'a list \<times> rng" where
  "shuffle_from 0 rnd xs = (xs, rnd)"
| "shuffle_from (Suc i) rnd xs =
     (case randbelow (Suc (Suc i)) rnd of (j, rnd') \<Rightarrow> shuffle_from i rnd' (swap (Suc i) j xs))"

definition shuffle :: "rng \<Rightarrow> 'a list \<Rightarrow> 'a list \<times> rng" where
  "shuffle rnd xs = shuffle_from (length xs - 1) rnd xs"

text \<open>\<^verbatim>\<open>list.pop()\<close>: the last element, \<^verbatim>\<open>IndexError\<close> on an empty list.\<close>

definition pop :: "'a list \<Rightarrow> py_error + ('a \<times> 'a list)" where
  "pop xs = (if xs = [] then Inl IndexError else Inr (last xs, butlast xs))"

section \<open>Blackjack cards and hand values (cogs/games/blackjack.py)\<close>

text \<open>
  \<^verbatim>\<open>Card(suit, value)\<close>: the suit is one of the four strings of \<^verbatim>\<open>Deck.build\<close>,
  the value a Python int (1 = ace, 11..13 = jack, queen, king).
\<close>

datatype suit = Hearts | Diamonds | Clubs | Spades

datatype card = Card (card_suit: suit) (card_value: int)

text \<open>\<^verbatim>\<open>Card.blackjack_value\<close>: ace 11, ten and faces 10, else the pip value.\<close>

definition blackjack_value :: "card \<Rightarrow> int" where
  "blackjack_value c =
     (if card_value c = 1 then 11 else if card_value c \<ge> 10 then 10 else card_value c)"

text \<open>
  The loop of \<^verbatim>\<open>get_hand_value\<close>:
  \<^verbatim>\<open>while value > 21 and aces > 0: value -= 10; aces -= 1\<close>.
  The counter \<^verbatim>\<open>aces\<close> is a count, hence a natural number.
\<close>

fun adjust_aces :: "int \<Rightarrow> nat \<Rightarrow> int" where
  "adjust_aces v 0 = v"
| "adjust_aces v (Suc aces) = (if v > 21 then adjust_aces (v - 10) aces else v)"

definition count_aces :: "card list \<Rightarrow> nat" where
  "count_aces hand = length (filter (\<lambda>c. card_value c = 1) hand)"

definition get_hand_value :: "card list \<Rightarrow> int" where
  "get_hand_value hand = adjust_aces (sum_list (map blackjack_value hand)) (count_aces hand)"

text \<open>The total of a hand with every ace counted as 1 (the value after all reductions).\<close>

definition ace_low_total :: "card list \<Rightarrow> int" where
  "ace_low_total hand =
     sum_list (map (\<lambda>c. if card_value c = 1 then 1 else blackjack_value c) hand)"

subsection \<open>Deck\<close>

text \<open>\<^verbatim>\<open>Deck.build\<close>: \<^verbatim>\<open>[Card(suit, value) for suit in suits for value in range(1, 14)]\<close>.\<close>

definition build :: "card list" where
  "build = concat (map (\<lambda>s. map (Card s) [1..13]) [Hearts, Diamonds, Clubs, Spades])"

text \<open>
  \<^verbatim>\<open>Deck.deal\<close>: an empty deck is rebuilt and shuffled first, then the last card is popped.
  The result carries the remaining deck and the generator state.
\<close>

definition deal :: "rng \<Rightarrow> card list \<Rightarrow> py_error + (card \<times> card list \<times> rng)" where
  "deal rnd cards =
     (case (if cards = [] then shuffle rnd build else (cards, rnd)) of
        (cards', rnd') \<Rightarrow>
          (case pop cards' of
             Inl e \<Rightarrow> Inl e
           | Inr (c, rest) \<Rightarrow> Inr (c, rest, rnd')))"

subsection \<open>BlackjackGame\<close>

text \<open>The result strings of \<^verbatim>\<open>check_game_over\<close>.\<close>

datatype outcome =
  R_push | R_blackjack | R_dealer_blackjack | R_bust | R_dealer_bust | R_dealer_wins | R_player_wins

text \<open>
  The fields of \<^verbatim>\<open>BlackjackGame\<close> (the player is kept by id; the Discord message handle
  is presentation only). \<^verbatim>\<open>bj_deck\<close> is \<^verbatim>\<open>self.deck.cards\<close>.
\<close>

record blackjack_game =
  bj_player :: int
  bj_bet :: int
  bj_deck :: "card list"
  player_hand :: "card list"
  dealer_hand :: "card list"
  player_stood :: bool
  bj_game_over :: bool
  bj_result :: "outcome option"

definition is_blackjack :: "card list \<Rightarrow> bool" where
  "is_blackjack hand =
     (if length hand \<noteq> 2 then False
      else (card_value (hand ! 0) = 1 \<and> blackjack_value (hand ! 1) \<ge> 10)
         \<or> (card_value (hand ! 1) = 1 \<and> blackjack_value (hand ! 0) \<ge> 10))"

definition check_game_over :: "blackjack_game \<Rightarrow> blackjack_game" where
  "check_game_over g =
     (let player_value = get_hand_value (player_hand g);
          dealer_value = get_hand_value (dealer_hand g);
          player_blackjack = is_blackjack (player_hand g);
          dealer_blackjack = is_blackjack (dealer_hand g)
      in if player_blackjack \<and> dealer_blackjack
           then g\<lparr>bj_result := Some R_push, bj_game_over := True\<rparr>
         else if player_blackjack
           then g\<lparr>bj_result := Some R_blackjack, bj_game_over := True\<rparr>
         else if dealer_blackjack
           then g\<lparr>bj_result := Some R_dealer_blackjack, bj_game_over := True\<rparr>
         else if player_value > 21
           then g\<lparr>bj_result := Some R_bust, bj_game_over := True\<rparr>
         else if player_stood g
           then g\<lparr>bj_result := Some
                    (if dealer_value > 21 then R_dealer_bust
                     else if dealer_value > player_value then R_dealer_wins
                     else if dealer_value < player_value then R_player_wins
                     else R_push),
                  bj_game_over := True\<rparr>
         else g)"

definition player_hit :: "rng \<Rightarrow> blackjack_game \<Rightarrow> py_error + (bool \<times> blackjack_game \<times> rng)" where
  "player_hit rnd g =
     (if bj_game_over g \<or> player_stood g then Inr (False, g, rnd)
      else case deal rnd (bj_deck g) of
             Inl e \<Rightarrow> Inl e
           | Inr (c, rest, rnd') \<Rightarrow>
               Inr (True, g\<lparr>bj_deck := rest, player_hand := player_hand g @ [c]\<rparr>, rnd'))"

text \<open>
  The dealer's loop of \<^verbatim>\<open>player_stand\<close>:
  \<^verbatim>\<open>while dealer_value < 17: self.dealer_hand.append(self.deck.deal())\<close>.
\<close>

function dealer_play ::
  "rng \<Rightarrow> card list \<Rightarrow> card list \<Rightarrow> py_error + (card list \<times> card list \<times> rng)" where
  "dealer_play rnd cards hand =
     (if get_hand_value hand < 17
      then (case deal rnd cards of
              Inl e \<Rightarrow> Inl e
            | Inr (c, rest, rnd') \<Rightarrow> dealer_play rnd' rest (hand @ [c]))
      else Inr (cards, hand, rnd))"
  by pat_completeness auto

definition player_stand :: "rng \<Rightarrow> blackjack_game \<Rightarrow> py_error + (bool \<times> blackjack_game \<times> rng)" where
  "player_stand rnd g =
     (if bj_game_over g \<or> player_stood g then Inr (False, g, rnd)
      else case dealer_play rnd (bj_deck g) (dealer_hand g) of
             Inl e \<Rightarrow> Inl e
           | Inr (cards, hand, rnd') \<Rightarrow>
               Inr (True, g\<lparr>player_stood := True, bj_deck := cards, dealer_hand := hand\<rparr>, rnd'))"

text \<open>
  \<^verbatim>\<open>BlackjackGame.__init__\<close>: a fresh shuffled deck, then four cards dealt alternately to
  player and dealer.
\<close>

definition new_blackjack_game :: "rng \<Rightarrow> int \<Rightarrow> int \<Rightarrow> py_error + (blackjack_game \<times> rng)" where
  "new_blackjack_game rnd player bet =
     (case shuffle rnd build of (d0, r0) \<Rightarrow>
        try_bind (deal r0 d0) (\<lambda>(c1, d1, r1).
        try_bind (deal r1 d1) (\<lambda>(c2, d2, r2).
        try_bind (deal r2 d2) (\<lambda>(c3, d3, r3).
        try_bind (deal r3 d3) (\<lambda>(c4, d4, r4).
          Inr (\<lparr>bj_player = player, bj_bet = bet, bj_deck = d4,
                player_hand = [c1, c3], dealer_hand = [c2, c4],
                player_stood = False, bj_game_over = False, bj_result = None\<rparr>, r4))))))"

subsection \<open>Measure of the dealer's loop\<close>

text \<open>
  The value a card adds to a hand once every ace counts as 1, and the amount by which the
  cards still in a deck can lower that total (only cards of non-positive value, which
  \<^verbatim>\<open>Deck.build\<close> never creates, contribute).
\<close>

definition ace_low :: "card \<Rightarrow> int" where
  "ace_low c = (if card_value c = 1 then 1 else blackjack_value c)"

definition deck_debt :: "card list \<Rightarrow> int" where
  "deck_debt cards = sum_list (map (\<lambda>c. max 0 (1 - ace_low c)) cards)"

section \<open>The ledger (cogs/utils/db.py) and the Economy cog (cogs/economy/economy.py)\<close>

text \<open>
  An economy record is a JSON document, a Python dict from field names to values. The
  economy collection is keyed by \<^verbatim>\<open>f"{guild_id}_{user_id}"\<close>, modelled as the pair
  \<open>(guild_id, user_id)\<close>. \<^verbatim>\<open>_get_data\<close> answers \<^verbatim>\<open>{}\<close> for a key without a document;
  \<^verbatim>\<open>_update_data\<close> replaces the document (cache and file hold the same content, and
  input/output failures of the file system are outside the model).
\<close>

datatype jvalue = JInt int | JList "jvalue list" | JStr string

type_synonym document = "string \<rightharpoonup> jvalue"

type_synonym database = "(int \<times> int) \<rightharpoonup> document"

definition get_economy_data :: "database \<Rightarrow> int \<Rightarrow> int \<Rightarrow> document" where
  "get_economy_data db user_id guild_id =
     (case db (guild_id, user_id) of None \<Rightarrow> Map.empty | Some d \<Rightarrow> d)"

definition update_economy_data :: "database \<Rightarrow> int \<Rightarrow> int \<Rightarrow> document \<Rightarrow> database" where
  "update_economy_data db user_id guild_id data = db((guild_id, user_id) \<mapsto> data)"

text \<open>\<^verbatim>\<open>data.get(key, default)\<close>, \<^verbatim>\<open>data[key]\<close>, and arithmetic on a stored value.\<close>

definition dict_get :: "document \<Rightarrow> string \<Rightarrow> jvalue \<Rightarrow> jvalue" where
  "dict_get d k dflt = (case d k of None \<Rightarrow> dflt | Some v \<Rightarrow> v)"

definition dict_item :: "document \<Rightarrow> string \<Rightarrow> py_error + jvalue" where
  "dict_item d k = (case d k of None \<Rightarrow> Inl KeyError | Some v \<Rightarrow> Inr v)"

definition as_int :: "jvalue \<Rightarrow> py_error + int" where
  "as_int v = (case v of JInt i \<Rightarrow> Inr i | JList xs \<Rightarrow> Inl TypeError | JStr s \<Rightarrow> Inl TypeError)"

text \<open>The record created for a player without a document, by the cog and by the manager.\<close>

definition new_account :: document where
  "new_account = [''balance'' \<mapsto> JInt 0, ''inventory'' \<mapsto> JList [],
                  ''last_daily'' \<mapsto> JInt 0, ''daily_streak'' \<mapsto> JInt 0]"

definition new_account_db :: document where
  "new_account_db = [''balance'' \<mapsto> JInt 0, ''inventory'' \<mapsto> JList [], ''last_daily'' \<mapsto> JInt 0]"

text \<open>
  \<^verbatim>\<open>DatabaseManager.add_currency\<close> and \<^verbatim>\<open>remove_currency\<close>: they return the new balance.
\<close>

definition add_currency :: "database \<Rightarrow> int \<Rightarrow> int \<Rightarrow> int \<Rightarrow> py_error + (int \<times> database)" where
  "add_currency db user_id guild_id amount =
     (let data0 = get_economy_data db user_id guild_id;
          data = (if data0 = Map.empty then new_account_db else data0)
      in try_bind (dict_item data ''balance'') (\<lambda>v.
         try_bind (as_int v) (\<lambda>b.
           Inr (b + amount,
                update_economy_data db user_id guild_id (data(''balance'' \<mapsto> JInt (b + amount)))))))"


text \<open>
  What a cog sees of the bot: the database manager reached by
  \<^verbatim>\<open>self.bot.get_cog("Utils").db_manager if hasattr(...) else None\<close>, and whether
  \<^verbatim>\<open>self.bot.get_cog("Economy")\<close> finds the Economy cog.
\<close>

record bot =
  db_manager :: "database option"
  economy_cog :: bool

text \<open>
  The program's wiring. main.py loads every module of cogs/commands, cogs/games,
  cogs/economy and cogs/utils, and each module's \<^verbatim>\<open>setup\<close> adds one cog with
  \<^verbatim>\<open>await bot.add_cog(...)\<close>. No cog class passes \<^verbatim>\<open>name=\<close>, so each cog is registered under
  its class name; a cog object is represented by that name. \<^verbatim>\<open>bot.get_cog(name)\<close> answers the
  cog registered under exactly that name, else \<^verbatim>\<open>None\<close>. (An extension that fails to load is
  only logged; the list is the case where all of them load.)
\<close>

definition cogs :: "string list" where
  "cogs = [''Fun'', ''HelpCommand'', ''Blackjack'', ''Hangman'', ''Memory'', ''NumberGuess'',
           ''RockPaperScissors'', ''Snake'', ''TicTacToe'', ''TriviaGame'', ''WordScramble'',
           ''Economy'', ''Inventory'', ''Shop'', ''DatabaseCog'']"

definition get_cog :: "string \<Rightarrow> string option" where
  "get_cog name = (if name \<in> set cogs then Some name else None)"

text \<open>
  \<^verbatim>\<open>hasattr(cog, "db_manager")\<close>: \<^verbatim>\<open>DatabaseCog.__init__\<close> (db.py, line 279) is the only place
  that sets the attribute; \<^verbatim>\<open>None\<close> does not have it.
\<close>

definition has_db_manager :: "string option \<Rightarrow> bool" where
  "has_db_manager cog = (cog = Some ''DatabaseCog'')"

text \<open>
  \<^verbatim>\<open>self.bot.get_cog("Utils").db_manager if hasattr(self.bot.get_cog("Utils"), "db_manager") else None\<close>,
  the lookup each cog makes, where \<open>db\<close> is the economy collection held by the manager of
  \<^verbatim>\<open>DatabaseCog\<close>; and what a cog of the running program sees of the bot.
\<close>

definition lookup_db_manager :: "database \<Rightarrow> database option" where
  "lookup_db_manager db = (if has_db_manager (get_cog ''Utils'') then Some db else None)"

definition running_bot :: "database \<Rightarrow> bot" where
  "running_bot db = \<lparr>db_manager = lookup_db_manager db, economy_cog = (get_cog ''Economy'' \<noteq> None)\<rparr>"

text \<open>
  The economy collection after a call that started on \<open>db\<close> and left the bot as \<open>b\<close>: what
  the call wrote through the manager it reached, and \<open>db\<close> itself when it reached none.
\<close>

definition ledger_after :: "database \<Rightarrow> bot \<Rightarrow> database" where
  "ledger_after db b = (case db_manager b of None \<Rightarrow> db | Some db' \<Rightarrow> db')"

text \<open>
  \<^verbatim>\<open>Economy.add_balance\<close> and \<^verbatim>\<open>Economy.remove_balance\<close>: \<^verbatim>\<open>False\<close> without a manager or
  when the \<^verbatim>\<open>try\<close> block raises, else the balance is updated and \<^verbatim>\<open>True\<close> returned.
\<close>

definition add_balance :: "bot \<Rightarrow> int \<Rightarrow> int \<Rightarrow> int \<Rightarrow> bool \<times> bot" where
  "add_balance b user_id guild_id amount =
     (case db_manager b of
        None \<Rightarrow> (False, b)
      | Some db \<Rightarrow>
          (let data0 = get_economy_data db user_id guild_id;
               data = (if data0 = Map.empty then new_account else data0)
           in case as_int (dict_get data ''balance'' (JInt 0)) of
                Inl e \<Rightarrow> (False, b)
              | Inr bal \<Rightarrow>
                  (True, b\<lparr>db_manager := Some (update_economy_data db user_id guild_id
                                                (data(''balance'' \<mapsto> JInt (bal + amount))))\<rparr>)))"

definition remove_balance :: "bot \<Rightarrow> int \<Rightarrow> int \<Rightarrow> int \<Rightarrow> bool \<times> bot" where
  "remove_balance b user_id guild_id amount =
     (case db_manager b of
        None \<Rightarrow> (False, b)
      | Some db \<Rightarrow>
          (let data0 = get_economy_data db user_id guild_id;
               data = (if data0 = Map.empty then new_account else data0)
           in case as_int (dict_get data ''balance'' (JInt 0)) of
                Inl e \<Rightarrow> (False, b)
              | Inr bal \<Rightarrow>
                  (True, b\<lparr>db_manager := Some (update_economy_data db user_id guild_id
                                                (data(''balance'' \<mapsto> JInt (max 0 (bal - amount)))))\<rparr>)))"

text \<open>What a stored document shows for a numeric field (\<^verbatim>\<open>data.get(key, 0)\<close>).\<close>

definition stored_field :: "database \<Rightarrow> int \<Rightarrow> int \<Rightarrow> string \<Rightarrow> jvalue" where
  "stored_field db user_id guild_id key =
     dict_get (get_economy_data db user_id guild_id) key (JInt 0)"

subsection \<open>The daily reward\<close>

definition daily_min :: int where "daily_min = 100"
definition daily_max :: int where "daily_max = 200"
definition daily_streak_bonus :: int where "daily_streak_bonus = 50"
definition daily_cooldown :: int where "daily_cooldown = 86400"

text \<open>
  What \<^verbatim>\<open>Economy.daily\<close> sends: the database error, the not-available notice with the
  time left, the claim (base reward, streak bonus, total reward), or the error notice of
  the \<^verbatim>\<open>except\<close> branch.
\<close>

datatype daily_notice =
  Daily_database_error
| Daily_not_available int
| Daily_claimed int int int
| Daily_error py_error

text \<open>
  The streak field of the not-available notice:
  \<^verbatim>\<open>if "daily_streak" in data and data["daily_streak"] > 0\<close> raises on a non-number.
\<close>

definition streak_field :: "document \<Rightarrow> py_error + bool" where
  "streak_field data =
     (case data ''daily_streak'' of
        None \<Rightarrow> Inr False
      | Some v \<Rightarrow> try_bind (as_int v) (\<lambda>s. Inr (s > 0)))"

text \<open>
  The new streak and the streak bonus: within 48 hours the streak is incremented and
  the bonus is \<^verbatim>\<open>streak * self.daily_streak_bonus\<close>; otherwise the streak is reset to 1 and
  \<^verbatim>\<open>streak_bonus\<close> keeps its initial value 0.
\<close>

definition next_streak :: "document \<Rightarrow> int \<Rightarrow> py_error + (int \<times> int)" where
  "next_streak data time_since_last =
     (if time_since_last < daily_cooldown * 2
      then try_bind (as_int (dict_get data ''daily_streak'' (JInt 0)))
             (\<lambda>s. Inr (s + 1, (s + 1) * daily_streak_bonus))
      else Inr (1, 0))"

definition daily :: "bot \<Rightarrow> rng \<Rightarrow> int \<Rightarrow> int \<Rightarrow> int \<Rightarrow> daily_notice \<times> bot \<times> rng" where
  "daily b rnd now user_id guild_id =
     (case db_manager b of
        None \<Rightarrow> (Daily_database_error, b, rnd)
      | Some db \<Rightarrow>
          (let data0 = get_economy_data db user_id guild_id;
               data = (if data0 = Map.empty then new_account else data0)
           in case as_int (dict_get data ''last_daily'' (JInt 0)) of
                Inl e \<Rightarrow> (Daily_error e, b, rnd)
              | Inr last_daily \<Rightarrow>
                  (let time_since_last = now - last_daily
                   in if time_since_last < daily_cooldown
                      then (case streak_field data of
                              Inl e \<Rightarrow> (Daily_error e, b, rnd)
                            | Inr shown \<Rightarrow>
                                (Daily_not_available (daily_cooldown - time_since_last), b, rnd))
                      else (case next_streak data time_since_last of
                              Inl e \<Rightarrow> (Daily_error e, b, rnd)
                            | Inr (streak, streak_bonus) \<Rightarrow>
                                (case randint daily_min daily_max rnd of
                                   (base_reward, rnd') \<Rightarrow>
                                     (case as_int (dict_get data ''balance'' (JInt 0)) of
                                        Inl e \<Rightarrow> (Daily_error e, b, rnd')
                                      | Inr bal \<Rightarrow>
                                          (Daily_claimed base_reward streak_bonus
                                             (base_reward + streak_bonus),
                                           b\<lparr>db_manager := Some
                                               (update_economy_data db user_id guild_id
                                                  (data(''balance'' \<mapsto>
                                                          JInt (bal + (base_reward + streak_bonus)),
                                                        ''last_daily'' \<mapsto> JInt now,
                                                        ''daily_streak'' \<mapsto> JInt streak)))\<rparr>,
                                           rnd')))))))"

text \<open>A generator whose every raw draw is \<open>n\<close>, for concrete evaluations.\<close>

definition constant_draws :: "nat \<Rightarrow> rng" where
  "constant_draws n = (\<lambda>k. n)"

section \<open>The Blackjack cog (cogs/games/blackjack.py)\<close>

text \<open>
  \<^verbatim>\<open>economy_cog.get_balance\<close> is an attribute lookup on the Economy cog. Class \<^verbatim>\<open>Economy\<close>
  (economy.py, lines 10 to 732) defines the commands \<^verbatim>\<open>balance\<close>, \<^verbatim>\<open>daily\<close>, \<^verbatim>\<open>work\<close>, \<^verbatim>\<open>pay\<close>,
  \<^verbatim>\<open>leaderboard\<close>, \<^verbatim>\<open>gamble\<close> and the methods \<^verbatim>\<open>format_time_difference\<close>, \<^verbatim>\<open>add_balance\<close>,
  \<^verbatim>\<open>remove_balance\<close>, and sets the attributes listed first below; nothing in the repository
  defines \<^verbatim>\<open>get_balance\<close>. A lookup of a name outside the list raises \<^verbatim>\<open>AttributeError\<close>.
  The commands below take the looked-up method as a parameter, so that their text after
  the call is modelled as written.
\<close>

definition economy_attributes :: "string list" where
  "economy_attributes =
     [''bot'', ''category'', ''currency_name'', ''currency_emoji'', ''daily_min'', ''daily_max'',
      ''daily_streak_bonus'', ''daily_cooldown'', ''work_min'', ''work_max'', ''work_cooldown'',
      ''work_messages'', ''balance'', ''daily'', ''work'', ''pay'', ''leaderboard'', ''gamble'',
      ''format_time_difference'', ''add_balance'', ''remove_balance'']"

type_synonym balance_reader = "bot \<Rightarrow> int \<Rightarrow> int \<Rightarrow> int"

definition economy_getattr :: "string \<Rightarrow> balance_reader option \<Rightarrow> py_error + balance_reader" where
  "economy_getattr name method =
     (if name \<in> set economy_attributes
      then (case method of None \<Rightarrow> Inl AttributeError | Some m \<Rightarrow> Inr m)
      else Inl AttributeError)"

text \<open>What the \<^verbatim>\<open>blackjack\<close> command sends before the game loop.\<close>

datatype blackjack_notice =
  Game_already_in_progress
| Invalid_bet_minimum
| Invalid_bet_maximum
| Economy_system_error
| Insufficient_funds int int
| Game_started

definition min_bet :: int where "min_bet = 10"
definition max_bet :: int where "max_bet = 1000"

text \<open>
  \<^verbatim>\<open>Blackjack.blackjack\<close> up to the registration of the new game (lines 229 to 294).
  \<^verbatim>\<open>games\<close> is \<^verbatim>\<open>self.games\<close>, keyed by the author's id. An exception ends the command;
  a result \<open>Inl\<close> does not carry the state reached before the raise.
\<close>

definition blackjack ::
  "balance_reader option \<Rightarrow> bot \<Rightarrow> (int \<rightharpoonup> blackjack_game) \<Rightarrow> rng \<Rightarrow> int \<Rightarrow> int \<Rightarrow> int option
     \<Rightarrow> py_error + (blackjack_notice \<times> bot \<times> (int \<rightharpoonup> blackjack_game) \<times> rng)" where
  "blackjack method b games rnd author guild bet_arg =
     (if games author \<noteq> None then Inr (Game_already_in_progress, b, games, rnd)
      else let bet = (case bet_arg of None \<Rightarrow> min_bet | Some n \<Rightarrow> n)
           in if bet < min_bet then Inr (Invalid_bet_minimum, b, games, rnd)
              else if bet > max_bet then Inr (Invalid_bet_maximum, b, games, rnd)
              else if \<not> economy_cog b then Inr (Economy_system_error, b, games, rnd)
              else try_bind (economy_getattr ''get_balance'' method) (\<lambda>get_balance.
                     let user_data = get_balance b author guild
                     in if user_data < bet
                        then Inr (Insufficient_funds user_data bet, b, games, rnd)
                        else let b' = snd (remove_balance b author guild bet)
                             in try_bind (new_blackjack_game rnd author bet) (\<lambda>(game, rnd').
                                  Inr (Game_started, b', games(author \<mapsto> game), rnd'))))"

section \<open>Tic-Tac-Toe (cogs/games/tictactoe.py)\<close>

datatype mark = Mark_X | Mark_O

text \<open>
  \<^verbatim>\<open>TicTacToeGame\<close>: players by id, the board a flat list of nine cells (\<^verbatim>\<open>None\<close>, \<^verbatim>\<open>"X"\<close> or
  \<^verbatim>\<open>"O"\<close>). Message handle and clock readings are presentation only.
\<close>

record tictactoe_game =
  player1 :: int
  player2 :: int
  ttt_bet :: int
  board :: "mark option list"
  current_turn :: int
  winner :: "int option"
  ttt_game_over :: bool

definition new_tictactoe_game :: "int \<Rightarrow> int \<Rightarrow> int \<Rightarrow> tictactoe_game" where
  "new_tictactoe_game p1 p2 bet =
     \<lparr>player1 = p1, player2 = p2, ttt_bet = bet, board = replicate 9 None,
      current_turn = p1, winner = None, ttt_game_over = False\<rparr>"

text \<open>The eight lines in the order \<^verbatim>\<open>check_game_over\<close> tests them: rows, columns, diagonals.\<close>

definition winning_lines :: "(nat \<times> nat \<times> nat) list" where
  "winning_lines = [(0, 1, 2), (3, 4, 5), (6, 7, 8), (0, 3, 6), (1, 4, 7), (2, 5, 8),
                    (0, 4, 8), (2, 4, 6)]"

text \<open>\<^verbatim>\<open>board[i] is not None and board[i] == board[j] == board[k]\<close>.\<close>

definition line_complete :: "mark option list \<Rightarrow> nat \<times> nat \<times> nat \<Rightarrow> bool" where
  "line_complete b l = (case l of (i, j, k) \<Rightarrow> b ! i \<noteq> None \<and> b ! i = b ! j \<and> b ! j = b ! k)"

definition ttt_check_game_over :: "tictactoe_game \<Rightarrow> tictactoe_game" where
  "ttt_check_game_over g =
     (case find (line_complete (board g)) winning_lines of
        Some (i, j, k) \<Rightarrow>
          g\<lparr>winner := Some (if board g ! i = Some Mark_X then player1 g else player2 g),
            ttt_game_over := True\<rparr>
      | None \<Rightarrow> if None \<notin> set (board g) then g\<lparr>ttt_game_over := True\<rparr> else g)"

definition make_move :: "int \<Rightarrow> int \<Rightarrow> tictactoe_game \<Rightarrow> bool \<times> tictactoe_game" where
  "make_move position player g =
     (if ttt_game_over g then (False, g)
      else if player \<noteq> current_turn g then (False, g)
      else if position < 0 \<or> position > 8 then (False, g)
      else if board g ! nat position \<noteq> None then (False, g)
      else (True, ttt_check_game_over
              (g\<lparr>board := (board g)[nat position := Some (if player = player1 g then Mark_X else Mark_O)],
                 current_turn := (if player = player1 g then player2 g else player1 g)\<rparr>)))"

text \<open>A game after a sequence of attempted moves (position, player id) from a new game.\<close>

fun play :: "tictactoe_game \<Rightarrow> (int \<times> int) list \<Rightarrow> tictactoe_game" where
  "play g [] = g"
| "play g ((position, player) # moves) = play (snd (make_move position player g)) moves"

text \<open>Whether mark \<open>m\<close> holds a completed line, and the completed lines of a board.\<close>

definition has_line :: "mark \<Rightarrow> mark option list \<Rightarrow> bool" where
  "has_line m b =
     list_ex (\<lambda>(i, j, k). b ! i = Some m \<and> b ! j = Some m \<and> b ! k = Some m) winning_lines"

definition completed_lines :: "mark option list \<Rightarrow> (nat \<times> nat \<times> nat) list" where
  "completed_lines b = filter (line_complete b) winning_lines"

text \<open>Whether every move of a sequence is accepted (\<^verbatim>\<open>make_move\<close> returns \<^verbatim>\<open>True\<close>).\<close>

fun moves_accepted :: "tictactoe_game \<Rightarrow> (int \<times> int) list \<Rightarrow> bool" where
  "moves_accepted g [] = True"
| "moves_accepted g ((position, player) # moves) =
     (fst (make_move position player g) \<and> moves_accepted (snd (make_move position player g)) moves)"

text \<open>
  The invariant of play: a board with a completed line belongs to a finished game, and
  the two marks never both hold a completed line.
\<close>

definition settled :: "tictactoe_game \<Rightarrow> bool" where
  "settled g \<longleftrightarrow> (completed_lines (board g) \<noteq> [] \<longrightarrow> ttt_game_over g)
              \<and> \<not> (has_line Mark_X (board g) \<and> has_line Mark_O (board g))"

subsection \<open>The TicTacToe cog\<close>

text \<open>
  The cog's state. \<^verbatim>\<open>self.games\<close> maps a channel id to a game object; the cog only tests
  membership and deletes, it never reads the stored game, so the model stores the number
  under which the game was created. \<^verbatim>\<open>self.pending_challenges\<close> maps the challenged
  member to challenger and bet. The calls suspended in an \<^verbatim>\<open>await\<close> are part of the state:
  \<^verbatim>\<open>waiting\<close> holds the \<^verbatim>\<open>tictactoe\<close> commands waiting for the member's answer (channel,
  guild, author, member, bet) and \<^verbatim>\<open>loops\<close> the running \<^verbatim>\<open>game_loop\<close> calls (game number,
  channel, guild, the loop's game object). Each function below is the code one call runs
  between two suspension points.
\<close>

record tictactoe_cog =
  ttt_games :: "int \<rightharpoonup> nat"
  pending_challenges :: "int \<rightharpoonup> (int \<times> int)"
  waiting :: "(int \<times> int \<times> int \<times> int \<times> int) list"
  loops :: "(nat \<times> int \<times> int \<times> tictactoe_game) list"
  created :: nat

definition new_tictactoe_cog :: tictactoe_cog where
  "new_tictactoe_cog =
     \<lparr>ttt_games = Map.empty, pending_challenges = Map.empty, waiting = [], loops = [], created = 0\<rparr>"

datatype tictactoe_notice =
  Ttt_already_in_progress
| Who_to_challenge
| Invalid_target_self
| Invalid_target_bot
| Invalid_bet_negative
| Pending_challenge int
| Ttt_economy_system_error
| Ttt_insufficient_funds int int int
| Challenge_sent

text \<open>
  The balance checks of a challenge with a bet (lines 196 to 229): \<^verbatim>\<open>None\<close> when both
  players can pay, else the notice sent.
\<close>

definition check_balances ::
  "balance_reader option \<Rightarrow> bot \<Rightarrow> int \<Rightarrow> int \<Rightarrow> int \<Rightarrow> int \<Rightarrow> py_error + tictactoe_notice option" where
  "check_balances method b guild author member bet =
     (if bet > 0
      then if \<not> economy_cog b then Inr (Some Ttt_economy_system_error)
           else try_bind (economy_getattr ''get_balance'' method) (\<lambda>get_balance.
                  if get_balance b author guild < bet
                  then Inr (Some (Ttt_insufficient_funds author (get_balance b author guild) bet))
                  else if get_balance b member guild < bet
                  then Inr (Some (Ttt_insufficient_funds member (get_balance b member guild) bet))
                  else Inr None)
      else Inr None)"

text \<open>
  \<^verbatim>\<open>TicTacToe.tictactoe\<close> up to its \<^verbatim>\<open>wait_for\<close> (lines 136 to 267). The member is given by id
  and bot flag, \<^verbatim>\<open>None\<close> when no member was mentioned.
\<close>

definition tictactoe ::
  "balance_reader option \<Rightarrow> bot \<Rightarrow> tictactoe_cog \<Rightarrow> int \<Rightarrow> int \<Rightarrow> int \<Rightarrow> (int \<times> bool) option \<Rightarrow> int
     \<Rightarrow> py_error + (tictactoe_notice \<times> tictactoe_cog)" where
  "tictactoe method b cog channel guild author member_arg bet =
     (if ttt_games cog channel \<noteq> None then Inr (Ttt_already_in_progress, cog)
      else case member_arg of
        None \<Rightarrow> Inr (Who_to_challenge, cog)
      | Some (member, is_bot) \<Rightarrow>
          if member = author then Inr (Invalid_target_self, cog)
          else if is_bot then Inr (Invalid_target_bot, cog)
          else if bet < 0 then Inr (Invalid_bet_negative, cog)
          else (case pending_challenges cog member of
                  Some (challenger, other_bet) \<Rightarrow> Inr (Pending_challenge challenger, cog)
                | None \<Rightarrow>
                    try_bind (check_balances method b guild author member bet) (\<lambda>rejection.
                      (case rejection of
                         Some notice \<Rightarrow> Inr (notice, cog)
                       | None \<Rightarrow>
                           Inr (Challenge_sent,
                                cog\<lparr>pending_challenges :=
                                      (pending_challenges cog)(member \<mapsto> (author, bet)),
                                    waiting :=
                                      waiting cog @ [(channel, guild, author, member, bet)]\<rparr>)))))"

text \<open>
  \<^verbatim>\<open>start_game\<close>: the new game is stored under the channel without a second look at
  \<^verbatim>\<open>self.games\<close>, the bets are deducted, and the game loop starts.
\<close>

definition start_game :: "bot \<Rightarrow> tictactoe_cog \<Rightarrow> int \<Rightarrow> int \<Rightarrow> int \<Rightarrow> int \<Rightarrow> int \<Rightarrow> bot \<times> tictactoe_cog" where
  "start_game b cog channel guild p1 p2 bet =
     (let game = new_tictactoe_game p1 p2 bet;
          b' = (if bet > 0 \<and> economy_cog b
                then snd (remove_balance (snd (remove_balance b p1 guild bet)) p2 guild bet)
                else b)
      in (b', cog\<lparr>ttt_games := (ttt_games cog)(channel \<mapsto> created cog),
                  loops := loops cog @ [(created cog, channel, guild, game)],
                  created := Suc (created cog)\<rparr>))"

text \<open>
  The member answers the challenge of the \<open>i\<close>-th waiting command (lines 269 to 288):
  \<^verbatim>\<open>del self.pending_challenges[member.id]\<close>, then either the decline notice or
  \<^verbatim>\<open>start_game\<close>. The wait running out (lines 290 to 301) removes the pending entry if
  it is there.
\<close>

definition challenge_answered ::
  "bot \<Rightarrow> tictactoe_cog \<Rightarrow> nat \<Rightarrow> bool \<Rightarrow> py_error + (bot \<times> tictactoe_cog)" where
  "challenge_answered b cog i accepted =
     (if i \<ge> length (waiting cog) then Inr (b, cog)
      else case waiting cog ! i of (channel, guild, author, member, bet) \<Rightarrow>
        if pending_challenges cog member = None then Inl KeyError
        else let cog' = cog\<lparr>pending_challenges := (pending_challenges cog)(member := None),
                             waiting := take i (waiting cog) @ drop (Suc i) (waiting cog)\<rparr>
             in if accepted then Inr (start_game b cog' channel guild author member bet)
                else Inr (b, cog'))"

definition challenge_timed_out :: "tictactoe_cog \<Rightarrow> nat \<Rightarrow> tictactoe_cog" where
  "challenge_timed_out cog i =
     (if i \<ge> length (waiting cog) then cog
      else case waiting cog ! i of (channel, guild, author, member, bet) \<Rightarrow>
        cog\<lparr>pending_challenges := (pending_challenges cog)(member := None),
            waiting := take i (waiting cog) @ drop (Suc i) (waiting cog)\<rparr>)"

text \<open>
  The \<^verbatim>\<open>except asyncio.TimeoutError\<close> branch of \<^verbatim>\<open>game_loop\<close> (lines 440 to 474) on the
  loop's game: the game is marked over, the bet is credited to both players when there
  is one and the Economy cog is found, and the channel's entry is deleted if present.
\<close>

definition game_loop_timeout ::
  "bot \<Rightarrow> (int \<rightharpoonup> nat) \<Rightarrow> int \<Rightarrow> int \<Rightarrow> tictactoe_game \<Rightarrow> bot \<times> (int \<rightharpoonup> nat) \<times> tictactoe_game" where
  "game_loop_timeout b games channel guild game =
     (let b' = (if ttt_bet game > 0 \<and> economy_cog b
                then snd (add_balance (snd (add_balance b (player1 game) guild (ttt_bet game)))
                            (player2 game) guild (ttt_bet game))
                else b)
      in (b', games(channel := None), game\<lparr>ttt_game_over := True\<rparr>))"

text \<open>
  \<^verbatim>\<open>end_game\<close> (lines 479 to 521): the winner takes twice the bet, a draw returns the
  bets, and the channel's entry is deleted if present.
\<close>

definition end_game ::
  "bot \<Rightarrow> (int \<rightharpoonup> nat) \<Rightarrow> int \<Rightarrow> int \<Rightarrow> tictactoe_game \<Rightarrow> bot \<times> (int \<rightharpoonup> nat)" where
  "end_game b games channel guild game =
     (let b' = (if ttt_bet game > 0 \<and> economy_cog b
                then (case winner game of
                        Some w \<Rightarrow> snd (add_balance b w guild (ttt_bet game * 2))
                      | None \<Rightarrow>
                          snd (add_balance (snd (add_balance b (player1 game) guild (ttt_bet game)))
                                 (player2 game) guild (ttt_bet game)))
                else b)
      in (b', games(channel := None)))"

text \<open>
  One turn of the \<open>j\<close>-th running game loop: the player whose turn it is reacts with a
  position, or the wait runs out. A loop whose game is over ends and leaves \<^verbatim>\<open>loops\<close>.
\<close>

definition loop_move :: "bot \<Rightarrow> tictactoe_cog \<Rightarrow> nat \<Rightarrow> int \<Rightarrow> bot \<times> tictactoe_cog" where
  "loop_move b cog j position =
     (if j \<ge> length (loops cog) then (b, cog)
      else case loops cog ! j of (n, channel, guild, game) \<Rightarrow>
        (let game' = snd (make_move position (current_turn game) game)
         in if ttt_game_over game'
            then (case end_game b (ttt_games cog) channel guild game' of (b', games') \<Rightarrow>
                    (b', cog\<lparr>ttt_games := games',
                             loops := take j (loops cog) @ drop (Suc j) (loops cog)\<rparr>))
            else (b, cog\<lparr>loops := (loops cog)[j := (n, channel, guild, game')]\<rparr>)))"

definition loop_timed_out :: "bot \<Rightarrow> tictactoe_cog \<Rightarrow> nat \<Rightarrow> bot \<times> tictactoe_cog" where
  "loop_timed_out b cog j =
     (if j \<ge> length (loops cog) then (b, cog)
      else case loops cog ! j of (n, channel, guild, game) \<Rightarrow>
        (case game_loop_timeout b (ttt_games cog) channel guild game of (b', games', game') \<Rightarrow>
           (b', cog\<lparr>ttt_games := games',
                    loops := take j (loops cog) @ drop (Suc j) (loops cog)\<rparr>)))"

text \<open>The running sessions of a channel: the game loops started there and not yet ended.\<close>

definition live_sessions :: "tictactoe_cog \<Rightarrow> int \<Rightarrow> (nat \<times> tictactoe_game) list" where
  "live_sessions cog channel =
     map (\<lambda>(n, c, guild, game). (n, game))
       (filter (\<lambda>(n, c, guild, game). c = channel \<and> \<not> ttt_game_over game) (loops cog))"

text \<open>
  What can happen to the cog, one event per resumption of a call: a challenge command, the
  answer to (or the expiry of) the \<open>i\<close>-th waiting challenge, a move in (or the expiry of)
  the \<open>j\<close>-th running game loop. \<open>run_events\<close> applies a sequence of events; an exception
  ends the call that raised it and is reported as the result.
\<close>

datatype tictactoe_event =
  Challenge int int int "(int \<times> bool) option" int
| Answer nat bool
| Challenge_expired nat
| Move nat int
| Loop_expired nat

definition step_event ::
  "balance_reader option \<Rightarrow> bot \<times> tictactoe_cog \<Rightarrow> tictactoe_event \<Rightarrow> py_error + (bot \<times> tictactoe_cog)" where
  "step_event method s ev =
     (case s of (b, cog) \<Rightarrow>
        (case ev of
           Challenge channel guild author member_arg bet \<Rightarrow>
             try_bind (tictactoe method b cog channel guild author member_arg bet)
               (\<lambda>(notice, cog'). Inr (b, cog'))
         | Answer i accepted \<Rightarrow> challenge_answered b cog i accepted
         | Challenge_expired i \<Rightarrow> Inr (b, challenge_timed_out cog i)
         | Move j position \<Rightarrow> Inr (loop_move b cog j position)
         | Loop_expired j \<Rightarrow> Inr (loop_timed_out b cog j)))"

fun run_events ::
  "balance_reader option \<Rightarrow> bot \<times> tictactoe_cog \<Rightarrow> tictactoe_event list \<Rightarrow> py_error + (bot \<times> tictactoe_cog)" where
  "run_events method s [] = Inr s"
| "run_events method s (ev # evs) =
     (case step_event method s ev of Inl e \<Rightarrow> Inl e | Inr s' \<Rightarrow> run_events method s' evs)"


text \<open>The sessions of a channel that are running after a sequence of events.\<close>

definition sessions_after ::
  "balance_reader option \<Rightarrow> bot \<Rightarrow> tictactoe_event list \<Rightarrow> int \<Rightarrow> py_error + (nat \<times> tictactoe_game) list" where
  "sessions_after method b evs channel =
     (case run_events method (b, new_tictactoe_cog) evs of
        Inl e \<Rightarrow> Inl e
      | Inr (b', cog) \<Rightarrow> Inr (live_sessions cog channel))"

definition registered_after ::
  "balance_reader option \<Rightarrow> bot \<Rightarrow> tictactoe_event list \<Rightarrow> int \<Rightarrow> py_error + nat option" where
  "registered_after method b evs channel =
     (case run_events method (b, new_tictactoe_cog) evs of
        Inl e \<Rightarrow> Inl e
      | Inr (b', cog) \<Rightarrow> Inr (ttt_games cog channel))"

section \<open>Snake (cogs/games/snake.py)\<close>

text \<open>
  \<^verbatim>\<open>SnakeGame\<close>: grid size, the snake as a list of cells with the head first, the current
  and the queued direction, score, food cell (or \<^verbatim>\<open>None\<close>) and the over flag. Clock
  readings, the move interval and the message handle are presentation only.
\<close>

record snake_game =
  width :: int
  height :: int
  snake :: "(int \<times> int) list"
  direction :: "int \<times> int"
  next_direction :: "int \<times> int"
  score :: int
  food :: "(int \<times> int) option"
  snake_game_over :: bool

text \<open>\<^verbatim>\<open>set_difficulty_params\<close>: the side of the square grid for a (lower-cased) difficulty.\<close>

definition grid_size :: "string \<Rightarrow> int" where
  "grid_size difficulty =
     (if difficulty = ''easy'' then 8
      else if difficulty = ''normal'' then 10
      else if difficulty = ''hard'' then 12
      else if difficulty = ''expert'' then 15
      else 10)"

text \<open>
  \<^verbatim>\<open>place_food\<close>: the cells not on the snake, row by row, and \<^verbatim>\<open>random.choice\<close> among them
  when there is one.
\<close>

definition empty_positions :: "snake_game \<Rightarrow> (int \<times> int) list" where
  "empty_positions g =
     [(x, y). y \<leftarrow> [0..height g - 1], x \<leftarrow> [0..width g - 1], (x, y) \<notin> set (snake g)]"

definition place_food :: "rng \<Rightarrow> snake_game \<Rightarrow> snake_game \<times> rng" where
  "place_food rnd g =
     (if empty_positions g \<noteq> []
      then (case randbelow (length (empty_positions g)) rnd of
              (i, rnd') \<Rightarrow> (g\<lparr>food := Some (empty_positions g ! i)\<rparr>, rnd'))
      else (g, rnd))"

text \<open>
  \<^verbatim>\<open>str.lower()\<close> on the letters A to Z; every other character is kept as it is (Python also
  lowers the upper-case letters outside ASCII).
\<close>

definition lower :: "string \<Rightarrow> string" where
  "lower s = map (\<lambda>c. if 65 \<le> (of_char c :: nat) \<and> (of_char c :: nat) \<le> 90
                        then char_of ((of_char c :: nat) + 32) else c) s"

text \<open>
  \<^verbatim>\<open>SnakeGame.__init__\<close> with \<^verbatim>\<open>reset_game\<close>: the difficulty is lower-cased, the snake starts
  at the centre, heading right.
\<close>

definition new_snake_game :: "rng \<Rightarrow> string \<Rightarrow> snake_game \<times> rng" where
  "new_snake_game rnd difficulty =
     place_food rnd
       \<lparr>width = grid_size (lower difficulty), height = grid_size (lower difficulty),
        snake = [(grid_size (lower difficulty) div 2, grid_size (lower difficulty) div 2)],
        direction = (1, 0), next_direction = (1, 0), score = 0, food = None,
        snake_game_over = False\<rparr>"

text \<open>
  \<^verbatim>\<open>SnakeGame.move\<close>. \<^verbatim>\<open>self.snake[0]\<close> raises on an empty snake and \<^verbatim>\<open>%\<close> on a zero grid
  size.
\<close>

definition move :: "rng \<Rightarrow> snake_game \<Rightarrow> py_error + (bool \<times> snake_game \<times> rng)" where
  "move rnd g =
     (if snake_game_over g then Inr (False, g, rnd)
      else (case snake g of
              [] \<Rightarrow> Inl IndexError
            | head # body \<Rightarrow>
                (case (head, next_direction g) of
                   ((head_x, head_y), (dx, dy)) \<Rightarrow>
                     if width g = 0 \<or> height g = 0 then Inl ZeroDivisionError
                     else (let new_head = ((head_x + dx) mod width g, (head_y + dy) mod height g);
                               g1 = g\<lparr>direction := next_direction g\<rparr>
                           in if new_head \<in> set (snake g)
                              then Inr (False, g1\<lparr>snake_game_over := True\<rparr>, rnd)
                              else if Some new_head = food g
                              then (case place_food rnd
                                           (g1\<lparr>snake := new_head # snake g,
                                               score := score g + 1, food := None\<rparr>) of
                                      (g2, rnd') \<Rightarrow> Inr (True, g2, rnd'))
                              else Inr (True, g1\<lparr>snake := butlast (new_head # snake g)\<rparr>, rnd)))))"

definition change_direction :: "int \<times> int \<Rightarrow> snake_game \<Rightarrow> bool \<times> snake_game" where
  "change_direction new_direction g =
     (if fst new_direction = - fst (direction g) \<and> snd new_direction = - snd (direction g)
      then (False, g)
      else (True, g\<lparr>next_direction := new_direction\<rparr>))"

subsection \<open>The Snake cog\<close>





section \<open>Word scramble (cogs/games/wordscramble.py)\<close>

text \<open>
  The loop of \<^verbatim>\<open>scramble_word\<close>:
  \<^verbatim>\<open>while scrambled == word and attempts < 10: random.shuffle(word_list); ...\<close>.
  \<^verbatim>\<open>scrambled\<close> is always the joined \<^verbatim>\<open>word_list\<close>, so the list is the loop's state.
\<close>

function scramble_loop :: "rng \<Rightarrow> string \<Rightarrow> string \<Rightarrow> nat \<Rightarrow> string \<times> rng" where
  "scramble_loop rnd word word_list attempts =
     (if word_list = word \<and> attempts < 10
      then (case shuffle rnd word_list of
              (shuffled, rnd') \<Rightarrow> scramble_loop rnd' word shuffled (attempts + 1))
      else (word_list, rnd))"
  by pat_completeness auto

termination scramble_loop
  by (relation "measure (\<lambda>(rnd, word, word_list, attempts). 10 - attempts)") auto

definition scramble_word :: "rng \<Rightarrow> string \<Rightarrow> string \<times> rng" where
  "scramble_word rnd word =
     (if length word \<le> 3 then (rev word, rnd) else scramble_loop rnd word word 0)"

text \<open>The arrangements that \<open>n\<close> successive shuffles of the word itself produce.\<close>

fun shuffle_attempts :: "rng \<Rightarrow> string \<Rightarrow> nat \<Rightarrow> string list" where
  "shuffle_attempts rnd word 0 = []"
| "shuffle_attempts rnd word (Suc n) =
     (case shuffle rnd word of (shuffled, rnd') \<Rightarrow> shuffled # shuffle_attempts rnd' word n)"

text \<open>A generator that repeats a given list of draws, for concrete evaluations.\<close>

definition cyclic_draws :: "nat list \<Rightarrow> rng" where
  "cyclic_draws ds = (\<lambda>k. ds ! (k mod length ds))"

section \<open>Hand value: ace reduction\<close>

lemma adjust_aces_steps:
  "\<exists>k. k \<le> aces \<and> adjust_aces v aces = v - 10 * int k
       \<and> (\<forall>j<k. 21 < v - 10 * int j)
       \<and> (k < aces \<longrightarrow> v - 10 * int k \<le> 21)"
proof (induction aces arbitrary: v)
  case 0
  show ?case by simp
next
  case (Suc aces)
  show ?case
  proof (cases "v > 21")
    case False
    then show ?thesis by (intro exI[of _ 0]) simp
  next
    case True
    from Suc.IH[of "v - 10"] obtain k where k:
      "k \<le> aces" "adjust_aces (v - 10) aces = v - 10 - 10 * int k"
      "\<forall>j<k. 21 < v - 10 - 10 * int j"
      "k < aces \<longrightarrow> v - 10 - 10 * int k \<le> 21"
      by blast
    have low: "\<forall>j<Suc k. 21 < v - 10 * int j"
    proof (intro allI impI)
      fix j assume j: "j < Suc k"
      show "21 < v - 10 * int j"
      proof (cases j)
        case 0
        with True show ?thesis by simp
      next
        case (Suc i)
        with j have "i < k" by simp
        with k(3) have "21 < v - 10 - 10 * int i" by blast
        with Suc show ?thesis by simp
      qed
    qed
    show ?thesis
      using True k(1,2,4) low by (intro exI[of _ "Suc k"]) simp
  qed
qed

lemma raw_minus_aces:
  "sum_list (map blackjack_value hand) - 10 * int (count_aces hand) = ace_low_total hand"
  by (induction hand) (auto simp: count_aces_def ace_low_total_def blackjack_value_def)

text \<open>
  Claim C5. The hand value is the raw sum (faces 10, aces 11) lowered by 10 once per loop
  iteration: some number \<open>k\<close> of aces, at most the number held, is converted; every
  conversion happened while the total still exceeded 21; the loop stops early only at a
  total of at most 21. Consequently a returned value above 21 is the total with every ace
  counted as 1.
\<close>

theorem get_hand_value_ace_reduction:
  "(\<exists>k. k \<le> count_aces hand
        \<and> get_hand_value hand = sum_list (map blackjack_value hand) - 10 * int k
        \<and> (\<forall>j<k. 21 < sum_list (map blackjack_value hand) - 10 * int j)
        \<and> (k < count_aces hand \<longrightarrow> get_hand_value hand \<le> 21))
   \<and> (21 < get_hand_value hand \<longrightarrow> get_hand_value hand = ace_low_total hand)"
proof -
  obtain k where k: "k \<le> count_aces hand"
    "get_hand_value hand = sum_list (map blackjack_value hand) - 10 * int k"
    "\<forall>j<k. 21 < sum_list (map blackjack_value hand) - 10 * int j"
    "k < count_aces hand \<longrightarrow> sum_list (map blackjack_value hand) - 10 * int k \<le> 21"
    using adjust_aces_steps[of "count_aces hand" "sum_list (map blackjack_value hand)"]
    unfolding get_hand_value_def by blast
  have first: "\<exists>k. k \<le> count_aces hand
        \<and> get_hand_value hand = sum_list (map blackjack_value hand) - 10 * int k
        \<and> (\<forall>j<k. 21 < sum_list (map blackjack_value hand) - 10 * int j)
        \<and> (k < count_aces hand \<longrightarrow> get_hand_value hand \<le> 21)"
    using k by (intro exI[of _ k]) simp
  have second: "21 < get_hand_value hand \<longrightarrow> get_hand_value hand = ace_low_total hand"
  proof
    assume bust: "21 < get_hand_value hand"
    with k(2,4) have "\<not> k < count_aces hand" by auto
    with k(1) have "k = count_aces hand" by simp
    with k(2) show "get_hand_value hand = ace_low_total hand"
      by (simp add: raw_minus_aces)
  qed
  from first second show ?thesis by blast
qed

theorem get_hand_value_ace_reduction_witness:
  "get_hand_value [Card Spades 1, Card Hearts 1, Card Clubs 13, Card Clubs 12] = 22
   \<and> ace_low_total [Card Spades 1, Card Hearts 1, Card Clubs 13, Card Clubs 12] = 22
   \<and> get_hand_value [Card Spades 1, Card Hearts 1, Card Clubs 9] = 21"
  using get_hand_value_ace_reduction
          [of "[Card Spades 1, Card Hearts 1, Card Clubs 13, Card Clubs 12]"]
  by (simp add: get_hand_value_def count_aces_def blackjack_value_def ace_low_total_def)

section \<open>Shuffling and dealing\<close>

lemma length_swap [simp]: "length (swap i j xs) = length xs"
  by (simp add: swap_def)

lemma mset_swap_list: "i < length xs \<Longrightarrow> j < length xs \<Longrightarrow> mset (swap i j xs) = mset xs"
  unfolding swap_def by (rule mset_swap)

lemma swap_nth_other: "k \<noteq> i \<Longrightarrow> k \<noteq> j \<Longrightarrow> swap i j xs ! k = xs ! k"
  by (simp add: swap_def)

lemma swap_nth_fst: "i < length xs \<Longrightarrow> j < length xs \<Longrightarrow> swap i j xs ! i = xs ! j"
  by (cases "i = j") (simp_all add: swap_def)

lemma randbelow_less: "0 < n \<Longrightarrow> fst (randbelow n rnd) < n"
  by (simp add: randbelow_def)

lemma shuffle_from_length: "length (fst (shuffle_from i rnd xs)) = length xs"
  by (induction i arbitrary: rnd xs) (simp_all add: split_beta)

lemma shuffle_from_mset:
  "i < length xs \<Longrightarrow> mset (fst (shuffle_from i rnd xs)) = mset xs"
proof (induction i arbitrary: rnd xs)
  case 0
  show ?case by simp
next
  case (Suc i)
  have j: "fst (randbelow (Suc (Suc i)) rnd) < length xs"
    using randbelow_less[of "Suc (Suc i)" rnd] Suc.prems by simp
  have "mset (fst (shuffle_from i (snd (randbelow (Suc (Suc i)) rnd))
                     (swap (Suc i) (fst (randbelow (Suc (Suc i)) rnd)) xs)))
        = mset (swap (Suc i) (fst (randbelow (Suc (Suc i)) rnd)) xs)"
    using Suc.prems by (intro Suc.IH) simp
  also have "\<dots> = mset xs"
    using Suc.prems j by (rule mset_swap_list)
  finally show ?case by (simp add: split_beta)
qed

lemma shuffle_from_nth_above:
  "i < k \<Longrightarrow> fst (shuffle_from i rnd xs) ! k = xs ! k"
proof (induction i arbitrary: rnd xs)
  case 0
  show ?case by simp
next
  case (Suc i)
  have j: "fst (randbelow (Suc (Suc i)) rnd) < Suc (Suc i)"
    by (rule randbelow_less) simp
  have "fst (shuffle_from i (snd (randbelow (Suc (Suc i)) rnd))
               (swap (Suc i) (fst (randbelow (Suc (Suc i)) rnd)) xs)) ! k
        = swap (Suc i) (fst (randbelow (Suc (Suc i)) rnd)) xs ! k"
    using Suc.prems by (intro Suc.IH) simp
  also have "\<dots> = xs ! k"
    using Suc.prems j by (intro swap_nth_other) simp_all
  finally show ?case by (simp add: split_beta)
qed

lemma shuffle_mset: "mset (fst (shuffle rnd xs)) = mset xs"
proof (cases xs)
  case Nil
  then show ?thesis by (simp add: shuffle_def)
next
  case (Cons x ys)
  then show ?thesis unfolding shuffle_def by (intro shuffle_from_mset) simp
qed

lemma shuffle_length: "length (fst (shuffle rnd xs)) = length xs"
  by (simp add: shuffle_def shuffle_from_length)

text \<open>The first draw of a shuffle decides which element ends up last.\<close>

lemma shuffle_last:
  assumes "xs \<noteq> []"
  shows "last (fst (shuffle rnd xs)) = xs ! (rnd 0 mod length xs)"
proof (cases "length xs - 1")
  case 0
  with assms have "length xs = 1" by (cases xs) simp_all
  then show ?thesis
    using assms by (cases xs) (simp_all add: shuffle_def)
next
  case (Suc i)
  then have len: "length xs = Suc (Suc i)" by simp
  let ?j = "fst (randbelow (Suc (Suc i)) rnd)"
  have j: "?j < length xs" using randbelow_less[of "Suc (Suc i)" rnd] len by simp
  have ne: "fst (shuffle rnd xs) \<noteq> []"
    using shuffle_length[of rnd xs] len by auto
  have "last (fst (shuffle rnd xs)) = fst (shuffle rnd xs) ! Suc i"
    using last_conv_nth[OF ne] len by (simp add: shuffle_length)
  also have "\<dots> = fst (shuffle_from i (snd (randbelow (Suc (Suc i)) rnd)) (swap (Suc i) ?j xs)) ! Suc i"
    using Suc by (simp add: shuffle_def split_beta)
  also have "\<dots> = swap (Suc i) ?j xs ! Suc i"
    by (rule shuffle_from_nth_above) simp
  also have "\<dots> = xs ! ?j"
    using j len by (intro swap_nth_fst) simp_all
  finally show ?thesis by (simp add: randbelow_def len)
qed

lemma length_build: "length build = 52"
  by (simp add: build_def)

lemma build_values: "c \<in> set build \<Longrightarrow> 1 \<le> card_value c \<and> card_value c \<le> 13"
  by (auto simp: build_def)

lemma deal_nonempty: "cards \<noteq> [] \<Longrightarrow> deal rnd cards = Inr (last cards, butlast cards, rnd)"
  by (simp add: deal_def pop_def)

lemma deal_empty:
  "deal rnd [] = Inr (last (fst (shuffle rnd build)), butlast (fst (shuffle rnd build)), snd (shuffle rnd build))"
proof -
  have "fst (shuffle rnd build) \<noteq> []"
    using shuffle_length[of rnd build] length_build by auto
  then show ?thesis by (simp add: deal_def pop_def split_beta)
qed


lemma ace_low_le_hand_value: "ace_low_total hand \<le> get_hand_value hand"
proof -
  obtain k where k: "k \<le> count_aces hand"
    "get_hand_value hand = sum_list (map blackjack_value hand) - 10 * int k"
    using adjust_aces_steps[of "count_aces hand" "sum_list (map blackjack_value hand)"]
    unfolding get_hand_value_def by blast
  have "ace_low_total hand = sum_list (map blackjack_value hand) - 10 * int (count_aces hand)"
    by (simp add: raw_minus_aces)
  with k show ?thesis by simp
qed

lemma ace_low_total_snoc: "ace_low_total (hand @ [c]) = ace_low_total hand + ace_low c"
  by (simp add: ace_low_total_def ace_low_def)

lemma deck_debt_nonneg: "0 \<le> deck_debt cards"
  unfolding deck_debt_def by (rule sum_list_nonneg) auto

lemma deck_debt_butlast:
  "cards \<noteq> [] \<Longrightarrow> deck_debt cards = deck_debt (butlast cards) + max 0 (1 - ace_low (last cards))"
proof -
  assume "cards \<noteq> []"
  then have "cards = butlast cards @ [last cards]" by simp
  then have "deck_debt cards = deck_debt (butlast cards @ [last cards])" by simp
  then show ?thesis by (simp add: deck_debt_def)
qed

lemma build_ace_low: "c \<in> set build \<Longrightarrow> 1 \<le> ace_low c"
  using build_values[of c] by (auto simp: ace_low_def blackjack_value_def)

lemma deck_debt_zero: "(\<And>c. c \<in> set cards \<Longrightarrow> 1 \<le> ace_low c) \<Longrightarrow> deck_debt cards = 0"
  by (induction cards) (auto simp: deck_debt_def)

lemma shuffle_set: "set (fst (shuffle rnd xs)) = set xs"
  using shuffle_mset[of rnd xs] by (metis set_mset_mset)

lemma deal_progress:
  assumes "deal rnd cards = Inr (c, rest, rnd')"
  shows "deck_debt rest - ace_low c < deck_debt cards"
proof (cases "cards = []")
  case False
  with assms have "c = last cards" "rest = butlast cards"
    by (simp_all add: deal_nonempty)
  with deck_debt_butlast[OF False] show ?thesis by simp
next
  case True
  let ?d = "fst (shuffle rnd build)"
  have ne: "?d \<noteq> []" using shuffle_length[of rnd build] length_build by auto
  from True assms have c: "c = last ?d" and rest: "rest = butlast ?d"
    by (simp_all add: deal_empty)
  have "c \<in> set build" using c ne shuffle_set[of rnd build] last_in_set by blast
  then have "1 \<le> ace_low c" by (rule build_ace_low)
  moreover have "deck_debt rest = 0"
  proof (rule deck_debt_zero)
    fix x assume "x \<in> set rest"
    then have "x \<in> set ?d" unfolding rest by (rule in_set_butlastD)
    then show "1 \<le> ace_low x" using shuffle_set[of rnd build] build_ace_low by blast
  qed
  moreover have "deck_debt cards = 0" using True by (simp add: deck_debt_def)
  ultimately show ?thesis by simp
qed

lemma dealer_measure_pos:
  "get_hand_value hand < 17 \<Longrightarrow> 0 < 17 - ace_low_total hand + deck_debt cards"
  using ace_low_le_hand_value[of hand] deck_debt_nonneg[of cards] by simp

lemma dealer_measure_decr:
  "deal rnd cards = Inr (c, rest, rnd') \<Longrightarrow>
   deck_debt rest - ace_low_total (hand @ [c]) < deck_debt cards - ace_low_total hand"
  using deal_progress[of rnd cards c rest rnd'] by (simp add: ace_low_total_snoc)

termination dealer_play
  by (relation "measure (\<lambda>(rnd, cards, hand). nat (17 - ace_low_total hand + deck_debt cards))")
     (auto intro: dealer_measure_pos dealer_measure_decr)

declare dealer_play.simps [simp del]

lemma dealer_play_no_error: "\<exists>r. dealer_play rnd cards hand = Inr r"
proof (induction rnd cards hand rule: dealer_play.induct)
  case (1 rnd cards hand)
  show ?case
  proof (cases "get_hand_value hand < 17")
    case False
    then show ?thesis by (subst dealer_play.simps) simp
  next
    case True
    obtain c rest rnd' where d: "deal rnd cards = Inr (c, rest, rnd')"
      by (cases "cards = []") (simp_all add: deal_empty deal_nonempty)
    from "1.IH"[OF True d refl refl] obtain r where "dealer_play rnd' rest (hand @ [c]) = Inr r"
      by blast
    with True d show ?thesis by (subst dealer_play.simps) (cases r, simp)
  qed
qed

text \<open>
  Claim C10. \<^verbatim>\<open>Deck.deal\<close> always returns a card: from a non-empty deck its last card,
  from an empty deck the last card of a freshly built and shuffled 52-card deck (the
  other 51 stay in the deck). So neither a player hit nor the dealer's drawing loop can
  raise. The rebuilt deck does not depend on the cards already dealt: every card of the
  52, also one \<open>held\<close> in a hand, is dealt again under some outcome of the shuffle, and
  a hit then puts a second copy into the player's hand.
\<close>

theorem deal_total:
  "(\<exists>c rest rnd'. deal rnd cards = Inr (c, rest, rnd')
       \<and> (cards \<noteq> [] \<longrightarrow> c = last cards \<and> rest = butlast cards \<and> rnd' = rnd)
       \<and> (cards = [] \<longrightarrow> mset (rest @ [c]) = mset build \<and> length rest = 51))
   \<and> (\<exists>r. player_hit rnd g = Inr r)
   \<and> (\<exists>r. dealer_play rnd cards hand = Inr r)
   \<and> (held \<in> set build \<longrightarrow>
        (\<exists>rnd0 rest rnd'. deal rnd0 [] = Inr (held, rest, rnd')
            \<and> (\<not> bj_game_over g \<and> \<not> player_stood g \<and> bj_deck g = [] \<longrightarrow>
                 player_hit rnd0 g =
                   Inr (True, g\<lparr>bj_deck := rest, player_hand := player_hand g @ [held]\<rparr>, rnd'))))"
proof -
  have total: "\<exists>c rest rnd'. deal rnd cards = Inr (c, rest, rnd')
       \<and> (cards \<noteq> [] \<longrightarrow> c = last cards \<and> rest = butlast cards \<and> rnd' = rnd)
       \<and> (cards = [] \<longrightarrow> mset (rest @ [c]) = mset build \<and> length rest = 51)"
  proof (cases "cards = []")
    case False
    then show ?thesis by (simp add: deal_nonempty)
  next
    case True
    let ?d = "fst (shuffle rnd build)"
    have ne: "?d \<noteq> []" using shuffle_length[of rnd build] length_build by auto
    then have "butlast ?d @ [last ?d] = ?d" by simp
    then have "mset (butlast ?d @ [last ?d]) = mset build" by (simp only: shuffle_mset)
    moreover have "length (butlast ?d) = 51" by (simp add: shuffle_length length_build)
    ultimately show ?thesis using True by (simp add: deal_empty)
  qed
  have hit: "\<exists>r. player_hit rnd g = Inr r"
  proof -
    obtain c rest rnd' where "deal rnd (bj_deck g) = Inr (c, rest, rnd')"
      by (cases "bj_deck g = []") (simp_all add: deal_empty deal_nonempty)
    then show ?thesis by (auto simp: player_hit_def)
  qed
  have again: "held \<in> set build \<longrightarrow>
        (\<exists>rnd0 rest rnd'. deal rnd0 [] = Inr (held, rest, rnd')
            \<and> (\<not> bj_game_over g \<and> \<not> player_stood g \<and> bj_deck g = [] \<longrightarrow>
                 player_hit rnd0 g =
                   Inr (True, g\<lparr>bj_deck := rest, player_hand := player_hand g @ [held]\<rparr>, rnd')))"
  proof
    assume "held \<in> set build"
    then obtain i where i: "i < length build" "build ! i = held"
      by (auto simp: in_set_conv_nth)
    let ?rnd0 = "\<lambda>k::nat. i"
    have ne: "build \<noteq> []" using length_build by auto
    have "last (fst (shuffle ?rnd0 build)) = held"
      using shuffle_last[OF ne, of ?rnd0] i by simp
    then have d: "deal ?rnd0 [] =
        Inr (held, butlast (fst (shuffle ?rnd0 build)), snd (shuffle ?rnd0 build))"
      by (simp add: deal_empty)
    show "\<exists>rnd0 rest rnd'. deal rnd0 [] = Inr (held, rest, rnd')
            \<and> (\<not> bj_game_over g \<and> \<not> player_stood g \<and> bj_deck g = [] \<longrightarrow>
                 player_hit rnd0 g =
                   Inr (True, g\<lparr>bj_deck := rest, player_hand := player_hand g @ [held]\<rparr>, rnd'))"
      using d by (intro exI[of _ ?rnd0] exI[of _ "butlast (fst (shuffle ?rnd0 build))"]
                        exI[of _ "snd (shuffle ?rnd0 build)"]) (simp add: player_hit_def)
  qed
  from total hit dealer_play_no_error[of rnd cards hand] again show ?thesis by blast
qed

theorem deal_total_witness:
  "(\<exists>c rest rnd'. deal (\<lambda>k. 3) [] = Inr (c, rest, rnd')
       \<and> mset (rest @ [c]) = mset build \<and> length rest = 51)
   \<and> (\<exists>rnd0 rest rnd'. deal rnd0 [] = Inr (Card Spades 13, rest, rnd'))"
proof -
  have held: "Card Spades 13 \<in> set build" by (simp add: build_def)
  let ?g = "\<lparr>bj_player = 1, bj_bet = 10, bj_deck = [],
             player_hand = [Card Spades 13, Card Hearts 2], dealer_hand = [],
             player_stood = False, bj_game_over = False, bj_result = None\<rparr>"
  from deal_total [of "\<lambda>k. 3" "[]" ?g "[]" "Card Spades 13"] held
  show ?thesis by blast
qed

section \<open>Economy: debits\<close>

lemma lookup_db_manager_none: "lookup_db_manager db = None"
  by (simp add: lookup_db_manager_def has_db_manager_def get_cog_def cogs_def)

lemma running_bot_value: "running_bot db = \<lparr>db_manager = None, economy_cog = True\<rparr>"
  by (simp add: running_bot_def lookup_db_manager_none get_cog_def cogs_def)





section \<open>Economy: the daily reward\<close>

text \<open>
  Claim C3, evaluated on the code. \<^verbatim>\<open>Economy.daily\<close> looks the database manager up under the
  cog name \<^verbatim>\<open>"Utils"\<close> (line 130), under which no cog is registered, so every call answers
  with the database-error notice before any record is read: no reward is drawn, nothing is
  credited and the stored streak stays as it was. A record with streak 1 and balance 100
  whose last claim was 90000 s ago keeps streak 1 and balance 100, where the claim says
  streak 2 and a credit of the base reward plus 100.
\<close>

theorem daily_database_error:
  "daily (running_bot db) rnd now user_id guild_id = (Daily_database_error, running_bot db, rnd)
   \<and> ledger_after db (fst (snd (daily (running_bot db) rnd now user_id guild_id))) = db
   \<and> fst (daily (running_bot [(1, 7) \<mapsto> [''balance'' \<mapsto> JInt 100,
               ''last_daily'' \<mapsto> JInt 1000000, ''daily_streak'' \<mapsto> JInt 1]])
             (constant_draws 0) 1090000 7 1) = Daily_database_error
   \<and> stored_field (ledger_after [(1, 7) \<mapsto> [''balance'' \<mapsto> JInt 100,
               ''last_daily'' \<mapsto> JInt 1000000, ''daily_streak'' \<mapsto> JInt 1]]
        (fst (snd (daily (running_bot [(1, 7) \<mapsto> [''balance'' \<mapsto> JInt 100,
               ''last_daily'' \<mapsto> JInt 1000000, ''daily_streak'' \<mapsto> JInt 1]])
             (constant_draws 0) 1090000 7 1)))) 7 1 ''daily_streak'' = JInt 1
   \<and> stored_field (ledger_after [(1, 7) \<mapsto> [''balance'' \<mapsto> JInt 100,
               ''last_daily'' \<mapsto> JInt 1000000, ''daily_streak'' \<mapsto> JInt 1]]
        (fst (snd (daily (running_bot [(1, 7) \<mapsto> [''balance'' \<mapsto> JInt 100,
               ''last_daily'' \<mapsto> JInt 1000000, ''daily_streak'' \<mapsto> JInt 1]])
             (constant_draws 0) 1090000 7 1)))) 7 1 ''balance'' = JInt 100"
  by (simp add: daily_def running_bot_value ledger_after_def stored_field_def
        get_economy_data_def dict_get_def)

section \<open>Blackjack: the funds check\<close>

text \<open>
  Claim C4, evaluated on the code. A player with balance 0 who bets 10 (Economy cog
  loaded, no active game) is not answered with the insufficient-funds notice: the lookup
  of \<^verbatim>\<open>get_balance\<close> on the Economy cog raises \<^verbatim>\<open>AttributeError\<close> and the command ends with
  that exception, before any game is created or any balance changed. No call of the
  command ever produces the insufficient-funds notice.
\<close>

theorem blackjack_zero_balance_raises:
  "blackjack method \<lparr>db_manager = Some [(1, 7) \<mapsto> [''balance'' \<mapsto> JInt 0]], economy_cog = True\<rparr>
      Map.empty rnd 7 1 (Some 10) = Inl AttributeError
   \<and> blackjack method b games rnd author guild bet_arg
        \<noteq> Inr (Insufficient_funds balance required, b', games', rnd')"
  by (simp add: blackjack_def economy_getattr_def economy_attributes_def try_bind_def
        min_bet_def max_bet_def Let_def)

section \<open>Tic-Tac-Toe: completed lines\<close>

lemma cell_update_other:
  "m' \<noteq> m \<Longrightarrow> b[p := Some m] ! i = Some m' \<Longrightarrow> b ! i = Some m'"
  by (cases "p < length b"; cases "i = p") (simp_all add: list_update_beyond)

lemma has_line_update:
  assumes "m' \<noteq> m" and "has_line m' (b[p := Some m])"
  shows "has_line m' b"
proof -
  from assms(2) obtain i j k where l: "(i, j, k) \<in> set winning_lines"
    and c: "b[p := Some m] ! i = Some m'" "b[p := Some m] ! j = Some m'" "b[p := Some m] ! k = Some m'"
    unfolding has_line_def list_ex_iff by blast
  from c have "b ! i = Some m'" "b ! j = Some m'" "b ! k = Some m'"
    using assms(1) by (blast intro: cell_update_other)+
  with l show ?thesis unfolding has_line_def list_ex_iff by blast
qed

lemma has_line_completed: "has_line m b \<Longrightarrow> completed_lines b \<noteq> []"
proof -
  assume "has_line m b"
  then obtain i j k where l: "(i, j, k) \<in> set winning_lines"
    and c: "b ! i = Some m" "b ! j = Some m" "b ! k = Some m"
    unfolding has_line_def list_ex_iff by blast
  then have "line_complete b (i, j, k)" by (simp add: line_complete_def)
  with l show ?thesis unfolding completed_lines_def by (auto simp: filter_empty_conv)
qed

lemma board_check: "board (ttt_check_game_over g) = board g"
  by (simp add: ttt_check_game_over_def split: option.splits)

lemma check_sets_over:
  "completed_lines (board g) \<noteq> [] \<Longrightarrow> ttt_game_over (ttt_check_game_over g)"
proof -
  assume "completed_lines (board g) \<noteq> []"
  then have "find (line_complete (board g)) winning_lines \<noteq> None"
    unfolding completed_lines_def by (auto simp: filter_empty_conv find_None_iff)
  then show ?thesis by (auto simp: ttt_check_game_over_def split: option.splits)
qed

lemma make_move_settled:
  assumes "settled g"
  shows "settled (snd (make_move position player g))"
proof (cases "fst (make_move position player g)")
  case False
  then have "snd (make_move position player g) = g"
    by (auto simp: make_move_def split: if_splits)
  with assms show ?thesis by simp
next
  case True
  let ?m = "if player = player1 g then Mark_X else Mark_O"
  let ?b = "(board g)[nat position := Some ?m]"
  let ?g = "g\<lparr>board := ?b, current_turn := (if player = player1 g then player2 g else player1 g)\<rparr>"
  from True have open_game: "\<not> ttt_game_over g"
    and res: "snd (make_move position player g) = ttt_check_game_over ?g"
    by (auto simp: make_move_def split: if_splits)
  from open_game assms have none: "completed_lines (board g) = []" by (auto simp: settled_def)
  have other: "\<not> has_line m' ?b" if "m' \<noteq> ?m" for m'
  proof
    assume "has_line m' ?b"
    with that have "has_line m' (board g)" by (rule has_line_update)
    then have "completed_lines (board g) \<noteq> []" by (rule has_line_completed)
    with none show False by simp
  qed
  have not_both: "\<not> (has_line Mark_X ?b \<and> has_line Mark_O ?b)"
  proof (cases "player = player1 g")
    case True
    then show ?thesis using other[of Mark_O] by simp
  next
    case False
    then show ?thesis using other[of Mark_X] by simp
  qed
  have b: "board (ttt_check_game_over ?g) = ?b" by (simp add: board_check)
  have "completed_lines ?b \<noteq> [] \<longrightarrow> ttt_game_over (ttt_check_game_over ?g)"
    using check_sets_over[of ?g] by simp
  with not_both b res show ?thesis by (simp add: settled_def)
qed

lemma play_settled: "settled g \<Longrightarrow> settled (play g moves)"
proof (induction moves arbitrary: g)
  case Nil
  then show ?case by simp
next
  case (Cons mv moves)
  obtain position player where mv: "mv = (position, player)" by (cases mv)
  from Cons.prems have "settled (snd (make_move position player g))" by (rule make_move_settled)
  then have "settled (play (snd (make_move position player g)) moves)" by (rule Cons.IH)
  with mv show ?case by simp
qed

lemma new_game_settled: "settled (new_tictactoe_game p1 p2 bet)"
  by (simp add: settled_def new_tictactoe_game_def completed_lines_def has_line_def
        winning_lines_def line_complete_def)

text \<open>
  Claim C7, as the code has it. After any sequence of attempted moves from a new game
  (rejected moves change nothing), the two players never both hold a completed line, and
  a board with a completed line belongs to a finished game, which accepts no more moves.
\<close>

theorem tictactoe_single_winner:
  "\<not> (has_line Mark_X (board (play (new_tictactoe_game p1 p2 bet) moves))
      \<and> has_line Mark_O (board (play (new_tictactoe_game p1 p2 bet) moves)))
   \<and> (completed_lines (board (play (new_tictactoe_game p1 p2 bet) moves)) \<noteq> [] \<longrightarrow>
        ttt_game_over (play (new_tictactoe_game p1 p2 bet) moves))"
  using play_settled[OF new_game_settled, of p1 p2 bet moves] by (simp add: settled_def)

text \<open>
  Claim C7 as stated fails in its first half: nine accepted moves end with the first
  player completing the top row and the left column at once, two completed lines.
\<close>

theorem tictactoe_two_lines_counterexample:
  "moves_accepted (new_tictactoe_game 1 2 0)
      [(1, 1), (4, 2), (2, 1), (5, 2), (3, 1), (7, 2), (6, 1), (8, 2), (0, 1)]
   \<and> completed_lines (board (play (new_tictactoe_game 1 2 0)
      [(1, 1), (4, 2), (2, 1), (5, 2), (3, 1), (7, 2), (6, 1), (8, 2), (0, 1)]))
     = [(0, 1, 2), (0, 3, 6)]"
  by (simp add: new_tictactoe_game_def make_move_def ttt_check_game_over_def line_complete_def
        winning_lines_def completed_lines_def numeral_eq_Suc)

theorem tictactoe_single_winner_witness:
  "has_line Mark_X (board (play (new_tictactoe_game 1 2 0)
      [(1, 1), (4, 2), (2, 1), (5, 2), (3, 1), (7, 2), (6, 1), (8, 2), (0, 1)]))
   \<and> \<not> has_line Mark_O (board (play (new_tictactoe_game 1 2 0)
      [(1, 1), (4, 2), (2, 1), (5, 2), (3, 1), (7, 2), (6, 1), (8, 2), (0, 1)]))
   \<and> ttt_game_over (play (new_tictactoe_game 1 2 0)
      [(1, 1), (4, 2), (2, 1), (5, 2), (3, 1), (7, 2), (6, 1), (8, 2), (0, 1)])"
  using tictactoe_single_winner [of 1 2 0
      "[(1, 1), (4, 2), (2, 1), (5, 2), (3, 1), (7, 2), (6, 1), (8, 2), (0, 1)]"]
  by (simp add: new_tictactoe_game_def make_move_def ttt_check_game_over_def line_complete_def
        winning_lines_def completed_lines_def has_line_def numeral_eq_Suc)

section \<open>The session registry\<close>

lemmas ttt_eval = sessions_after_def registered_after_def step_event_def tictactoe_def
  check_balances_def challenge_answered_def start_game_def new_tictactoe_cog_def
  live_sessions_def new_tictactoe_game_def try_bind_def loop_move_def loop_timed_out_def
  game_loop_timeout_def end_game_def make_move_def ttt_check_game_over_def Let_def

text \<open>
  Claim C6, evaluated on the code. In channel 1, player 10 challenges player 20 and player
  30 challenges player 40 before either challenge is answered (no game is registered yet,
  so both commands pass the check of \<^verbatim>\<open>self.games\<close>); then both challenges are accepted.
  \<^verbatim>\<open>start_game\<close> stores each game under the channel without looking again, so two
  games run in channel 1 at once and the registry names only the second. When the first
  game then ends by timeout, it deletes the channel's entry although the second game is
  still running.
\<close>

theorem tictactoe_two_sessions_in_channel:
  "sessions_after method b
     [Challenge 1 9 10 (Some (20, False)) 0, Challenge 1 9 30 (Some (40, False)) 0,
      Answer 0 True, Answer 0 True] 1
     = Inr [(0, new_tictactoe_game 10 20 0), (1, new_tictactoe_game 30 40 0)]
   \<and> registered_after method b
     [Challenge 1 9 10 (Some (20, False)) 0, Challenge 1 9 30 (Some (40, False)) 0,
      Answer 0 True, Answer 0 True] 1 = Inr (Some 1)
   \<and> sessions_after method b
     [Challenge 1 9 10 (Some (20, False)) 0, Challenge 1 9 30 (Some (40, False)) 0,
      Answer 0 True, Answer 0 True, Loop_expired 0] 1
     = Inr [(1, new_tictactoe_game 30 40 0)]
   \<and> registered_after method b
     [Challenge 1 9 10 (Some (20, False)) 0, Challenge 1 9 30 (Some (40, False)) 0,
      Answer 0 True, Answer 0 True, Loop_expired 0] 1 = Inr None"
  by (simp add: ttt_eval)

text \<open>What does hold: a start request for a key that is registered is rejected unchanged.\<close>

lemma tictactoe_rejects_active:
  "ttt_games cog channel \<noteq> None \<Longrightarrow>
   tictactoe method b cog channel guild author member_arg bet = Inr (Ttt_already_in_progress, cog)"
  by (simp add: tictactoe_def)

lemma blackjack_rejects_active:
  "games author \<noteq> None \<Longrightarrow>
   blackjack method b games rnd author guild bet_arg = Inr (Game_already_in_progress, b, games, rnd)"
  by (simp add: blackjack_def)

section \<open>Word scramble\<close>

declare scramble_loop.simps [simp del]

lemma scramble_loop_mset: "mset (fst (scramble_loop rnd word word_list attempts)) = mset word_list"
proof (induction rnd word word_list attempts rule: scramble_loop.induct)
  case (1 rnd word word_list attempts)
  show ?case
  proof (cases "word_list = word \<and> attempts < 10")
    case False
    then show ?thesis by (subst scramble_loop.simps) auto
  next
    case True
    obtain shuffled rnd' where s: "shuffle rnd word_list = (shuffled, rnd')"
      by (cases "shuffle rnd word_list")
    have "mset shuffled = mset word_list"
      using shuffle_mset[of rnd word_list] s by simp
    moreover have "mset (fst (scramble_loop rnd' word shuffled (attempts + 1))) = mset shuffled"
      using "1.IH"[OF True s[symmetric]] .
    ultimately show ?thesis using True s by (subst scramble_loop.simps) simp
  qed
qed

lemma scramble_loop_same:
  "fst (scramble_loop rnd word word_list attempts) = word \<longleftrightarrow>
     word_list = word \<and> (\<forall>w \<in> set (shuffle_attempts rnd word (10 - attempts)). w = word)"
proof (induction rnd word word_list attempts rule: scramble_loop.induct)
  case (1 rnd word word_list attempts)
  show ?case
  proof (cases "word_list = word")
    case False
    then show ?thesis by (subst scramble_loop.simps) simp
  next
    case same: True
    show ?thesis
    proof (cases "attempts < 10")
      case False
      with same show ?thesis by (subst scramble_loop.simps) simp
    next
      case True
      obtain shuffled rnd' where s: "shuffle rnd word = (shuffled, rnd')"
        by (cases "shuffle rnd word")
      from True have n: "10 - attempts = Suc (10 - (attempts + 1))" by simp
      have ih: "fst (scramble_loop rnd' word shuffled (attempts + 1)) = word \<longleftrightarrow>
          shuffled = word \<and> (\<forall>w \<in> set (shuffle_attempts rnd' word (10 - (attempts + 1))). w = word)"
        using "1.IH"[of shuffled rnd'] same True s by simp
      have "fst (scramble_loop rnd word word_list attempts)
              = fst (scramble_loop rnd' word shuffled (attempts + 1))"
        using same True s by (subst scramble_loop.simps) simp
      moreover have "shuffle_attempts rnd word (10 - attempts)
              = shuffled # shuffle_attempts rnd' word (10 - (attempts + 1))"
        using s by (subst n) simp
      ultimately show ?thesis using ih same by simp
    qed
  qed
qed

text \<open>
  Claim C9, as the code has it. For every word and every outcome of the randomness the
  result is a permutation of the word's characters. For a word longer than 3 the result
  equals the word exactly when each of the ten shuffles of the word gave the word back
  (the loop gives up after ten attempts); a word of at most 3 characters is reversed.
\<close>

theorem scramble_word_permutation:
  "mset (fst (scramble_word rnd word)) = mset word
   \<and> (3 < length word \<longrightarrow>
        (fst (scramble_word rnd word) = word
           \<longleftrightarrow> (\<forall>w \<in> set (shuffle_attempts rnd word 10). w = word)))
   \<and> (length word \<le> 3 \<longrightarrow> fst (scramble_word rnd word) = rev word)"
  using scramble_loop_mset[of rnd word word 0] scramble_loop_same[of rnd word word 0]
  by (simp add: scramble_word_def)

text \<open>
  Claim C9 as stated fails: a word of four equal letters is returned unchanged under any
  randomness, and a word of four distinct letters is returned unchanged when every
  shuffle draws the identity arrangement.
\<close>

theorem scramble_word_counterexample:
  "fst (scramble_word (constant_draws 0) ''aaaa'') = ''aaaa''
   \<and> fst (scramble_word (cyclic_draws [3, 2, 1]) ''abcd'') = ''abcd''"
  by code_simp

theorem scramble_word_permutation_witness:
  "mset (fst (scramble_word (constant_draws 0) ''abcd'')) = mset ''abcd''
   \<and> fst (scramble_word (constant_draws 0) ''abcd'') = ''bcda''
   \<and> \<not> (\<forall>w \<in> set (shuffle_attempts (constant_draws 0) ''abcd'' 10). w = ''abcd'')
   \<and> fst (scramble_word (constant_draws 0) ''abc'') = ''cba''"
proof -
  have e: "fst (scramble_word (constant_draws 0) ''abcd'') = ''bcda''" by code_simp
  have long: "3 < length ''abcd''" by simp
  have short: "length ''abc'' \<le> 3" by simp
  from scramble_word_permutation [of "constant_draws 0" "''abcd''"] e long
  have "\<not> (\<forall>w \<in> set (shuffle_attempts (constant_draws 0) ''abcd'' 10). w = ''abcd'')"
    by simp
  moreover from scramble_word_permutation [of "constant_draws 0" "''abc''"] short
  have "fst (scramble_word (constant_draws 0) ''abc'') = ''cba''" by simp
  moreover from scramble_word_permutation [of "constant_draws 0" "''abcd''"]
  have "mset (fst (scramble_word (constant_draws 0) ''abcd'')) = mset ''abcd''" by blast
  ultimately show ?thesis using e by blast
qed

section \<open>Snake: one move\<close>

lemma set_empty_positions:
  "set (empty_positions g) =
     {(x, y). 0 \<le> x \<and> x < width g \<and> 0 \<le> y \<and> y < height g \<and> (x, y) \<notin> set (snake g)}"
  by (auto simp: empty_positions_def)

lemma row_cells:
  "concat (map (\<lambda>x. if P x then [(x, y)] else []) xs) = map (\<lambda>x. (x, y)) (filter P xs)"
  by (induction xs) simp_all

lemma distinct_rows:
  "distinct ys \<Longrightarrow> (\<And>y. distinct (row y)) \<Longrightarrow>
   distinct (concat (map (\<lambda>y. map (\<lambda>x. (x, y)) (row y)) ys))"
  by (induction ys) (auto simp: distinct_map inj_on_def)

lemma distinct_empty_positions: "distinct (empty_positions g)"
proof -
  have "empty_positions g =
          concat (map (\<lambda>y. map (\<lambda>x. (x, y))
                             (filter (\<lambda>x. (x, y) \<notin> set (snake g)) [0..width g - 1]))
                    [0..height g - 1])"
    by (simp add: empty_positions_def row_cells)
  then show ?thesis by (simp add: distinct_rows)
qed

lemma place_food_value:
  "place_food rnd g =
     (if empty_positions g = [] then (g, rnd)
      else (g\<lparr>food := Some (empty_positions g ! (rnd 0 mod length (empty_positions g)))\<rparr>,
            (\<lambda>k. rnd (Suc k))))"
  by (simp add: place_food_def randbelow_def)

text \<open>
  The constructor creates a game with a positive grid size and a non-empty snake, and
  \<^verbatim>\<open>move\<close> keeps both, so the exceptions of \<^verbatim>\<open>move\<close> do not occur in play.
\<close>

lemma new_snake_game_shape:
  "0 < width (fst (new_snake_game rnd difficulty)) \<and> 0 < height (fst (new_snake_game rnd difficulty))
   \<and> snake (fst (new_snake_game rnd difficulty)) \<noteq> []"
  by (simp add: new_snake_game_def place_food_value grid_size_def)

lemma move_shape:
  assumes "0 < width g" and "0 < height g" and "snake g \<noteq> []"
    and "move rnd g = Inr (moved, g', rnd')"
  shows "width g' = width g \<and> height g' = height g \<and> snake g' \<noteq> []"
proof (cases "snake_game_over g")
  case True
  with assms show ?thesis by (simp add: move_def)
next
  case False
  obtain head_x head_y body where sn: "snake g = (head_x, head_y) # body"
    using assms(3) by (cases "snake g") auto
  obtain dx dy where d: "next_direction g = (dx, dy)" by (cases "next_direction g")
  show ?thesis
    using assms(1,2,4) False sn d
    by (auto simp: move_def Let_def place_food_value split: if_splits)
qed

text \<open>
  Claim C8. For a move of a running game (positive grid size), the new head is
  \<open>((head_x + dx) mod width, (head_y + dy) mod height)\<close> for the queued direction and lies
  within the grid. If it is a cell of the snake, the game ends and \<^verbatim>\<open>False\<close> is returned.
  Otherwise the head is prepended; if it is the food cell the score grows by one and the
  food is placed by \<^verbatim>\<open>random.choice\<close> on the list of empty cells, which holds each in-bounds
  cell off the lengthened snake exactly once (no food when that list is empty); if it is
  not the food cell the tail is dropped.
\<close>

theorem snake_move:
  assumes "\<not> snake_game_over g" and "snake g = (head_x, head_y) # body"
    and "next_direction g = (dx, dy)" and "0 < width g" and "0 < height g"
    and "new_head = ((head_x + dx) mod width g, (head_y + dy) mod height g)"
  shows "0 \<le> fst new_head \<and> fst new_head < width g \<and> 0 \<le> snd new_head \<and> snd new_head < height g
    \<and> (new_head \<in> set (snake g) \<longrightarrow>
         move rnd g = Inr (False, g\<lparr>direction := (dx, dy), snake_game_over := True\<rparr>, rnd))
    \<and> (new_head \<notin> set (snake g) \<and> food g \<noteq> Some new_head \<longrightarrow>
         move rnd g = Inr (True, g\<lparr>direction := (dx, dy),
                                   snake := new_head # butlast (snake g)\<rparr>, rnd))
    \<and> (new_head \<notin> set (snake g) \<and> food g = Some new_head \<longrightarrow>
         (\<exists>g' rnd'. move rnd g = Inr (True, g', rnd')
            \<and> snake g' = new_head # snake g \<and> score g' = score g + 1
            \<and> direction g' = (dx, dy) \<and> \<not> snake_game_over g'
            \<and> width g' = width g \<and> height g' = height g
            \<and> food g' = (if empty_positions g' = [] then None
                          else Some (empty_positions g' ! (rnd 0 mod length (empty_positions g'))))
            \<and> distinct (empty_positions g')
            \<and> set (empty_positions g') =
                 {(x, y). 0 \<le> x \<and> x < width g \<and> 0 \<le> y \<and> y < height g
                          \<and> (x, y) \<notin> set (new_head # snake g)}
            \<and> (\<forall>c. food g' = Some c \<longrightarrow> c \<in> set (empty_positions g'))))"
proof -
  have bounds: "0 \<le> fst new_head \<and> fst new_head < width g
                \<and> 0 \<le> snd new_head \<and> snd new_head < height g"
    using assms(4,5,6) by simp
  have nz: "\<not> (width g = 0 \<or> height g = 0)" using assms(4,5) by simp
  have hit: "new_head \<in> set (snake g) \<longrightarrow>
         move rnd g = Inr (False, g\<lparr>direction := (dx, dy), snake_game_over := True\<rparr>, rnd)"
    using assms(1,2,3,6) nz by (auto simp: move_def Let_def)
  have plain: "new_head \<notin> set (snake g) \<and> food g \<noteq> Some new_head \<longrightarrow>
         move rnd g = Inr (True, g\<lparr>direction := (dx, dy),
                                   snake := new_head # butlast (snake g)\<rparr>, rnd)"
    using assms(1,2,3,6) nz by (auto simp: move_def Let_def)
  have eat: "new_head \<notin> set (snake g) \<and> food g = Some new_head \<longrightarrow>
         (\<exists>g' rnd'. move rnd g = Inr (True, g', rnd')
            \<and> snake g' = new_head # snake g \<and> score g' = score g + 1
            \<and> direction g' = (dx, dy) \<and> \<not> snake_game_over g'
            \<and> width g' = width g \<and> height g' = height g
            \<and> food g' = (if empty_positions g' = [] then None
                          else Some (empty_positions g' ! (rnd 0 mod length (empty_positions g'))))
            \<and> distinct (empty_positions g')
            \<and> set (empty_positions g') =
                 {(x, y). 0 \<le> x \<and> x < width g \<and> 0 \<le> y \<and> y < height g
                          \<and> (x, y) \<notin> set (new_head # snake g)}
            \<and> (\<forall>c. food g' = Some c \<longrightarrow> c \<in> set (empty_positions g')))"
  proof
    assume a: "new_head \<notin> set (snake g) \<and> food g = Some new_head"
    let ?g1 = "g\<lparr>direction := (dx, dy), snake := new_head # snake g,
                  score := score g + 1, food := None\<rparr>"
    let ?g' = "fst (place_food rnd ?g1)"
    let ?rnd' = "snd (place_food rnd ?g1)"
    have m: "move rnd g = Inr (True, ?g', ?rnd')"
      using assms(1,2,3,6) nz a by (auto simp: move_def Let_def split_beta)
    have same: "empty_positions ?g' = empty_positions ?g1"
      by (simp add: place_food_value empty_positions_def)
    have fields: "snake ?g' = new_head # snake g" "score ?g' = score g + 1"
      "direction ?g' = (dx, dy)" "\<not> snake_game_over ?g'"
      "width ?g' = width g" "height ?g' = height g"
      using assms(1) by (simp_all add: place_food_value)
    have f: "food ?g' = (if empty_positions ?g' = [] then None
               else Some (empty_positions ?g' ! (rnd 0 mod length (empty_positions ?g'))))"
      unfolding same by (simp add: place_food_value)
    have s: "set (empty_positions ?g') =
                 {(x, y). 0 \<le> x \<and> x < width g \<and> 0 \<le> y \<and> y < height g
                          \<and> (x, y) \<notin> set (new_head # snake g)}"
      unfolding same by (simp add: set_empty_positions)
    have mem: "\<forall>c. food ?g' = Some c \<longrightarrow> c \<in> set (empty_positions ?g')"
    proof (intro allI impI)
      fix c assume c: "food ?g' = Some c"
      with f have ne: "empty_positions ?g' \<noteq> []" by (auto split: if_splits)
      then have "rnd 0 mod length (empty_positions ?g') < length (empty_positions ?g')" by simp
      then have "empty_positions ?g' ! (rnd 0 mod length (empty_positions ?g'))
                   \<in> set (empty_positions ?g')" by (rule nth_mem)
      with c f ne show "c \<in> set (empty_positions ?g')" by simp
    qed
    from m fields f s mem distinct_empty_positions[of ?g']
    show "\<exists>g' rnd'. move rnd g = Inr (True, g', rnd')
            \<and> snake g' = new_head # snake g \<and> score g' = score g + 1
            \<and> direction g' = (dx, dy) \<and> \<not> snake_game_over g'
            \<and> width g' = width g \<and> height g' = height g
            \<and> food g' = (if empty_positions g' = [] then None
                          else Some (empty_positions g' ! (rnd 0 mod length (empty_positions g'))))
            \<and> distinct (empty_positions g')
            \<and> set (empty_positions g') =
                 {(x, y). 0 \<le> x \<and> x < width g \<and> 0 \<le> y \<and> y < height g
                          \<and> (x, y) \<notin> set (new_head # snake g)}
            \<and> (\<forall>c. food g' = Some c \<longrightarrow> c \<in> set (empty_positions g'))"
      by blast
  qed
  from bounds hit plain eat show ?thesis by blast
qed


theorem snake_move_witness:
  "move (constant_draws 0)
        \<lparr>width = 8, height = 8, snake = [(7, 3)], direction = (1, 0), next_direction = (1, 0),
         score = 0, food = Some (2, 2), snake_game_over = False\<rparr>
     = Inr (True,
            \<lparr>width = 8, height = 8, snake = [(0, 3)], direction = (1, 0), next_direction = (1, 0),
             score = 0, food = Some (2, 2), snake_game_over = False\<rparr>,
            constant_draws 0)
   \<and> (\<exists>g' rnd'.
         move (constant_draws 0)
           \<lparr>width = 8, height = 8, snake = [(3, 3)], direction = (1, 0), next_direction = (1, 0),
            score = 0, food = Some (4, 3), snake_game_over = False\<rparr>
           = Inr (True, g', rnd')
         \<and> snake g' = [(4, 3), (3, 3)] \<and> score g' = 1 \<and> \<not> snake_game_over g')
   \<and> move (constant_draws 0)
        \<lparr>width = 8, height = 8, snake = [(3, 3), (4, 3), (4, 4)], direction = (0, 1),
         next_direction = (1, 0), score = 2, food = Some (2, 2), snake_game_over = False\<rparr>
     = Inr (False,
            \<lparr>width = 8, height = 8, snake = [(3, 3), (4, 3), (4, 4)], direction = (1, 0),
             next_direction = (1, 0), score = 2, food = Some (2, 2), snake_game_over = True\<rparr>,
            constant_draws 0)"
proof -
  let ?g1 = "\<lparr>width = 8, height = 8, snake = [(7, 3)], direction = (1, 0),
              next_direction = (1, 0), score = 0, food = Some (2, 2), snake_game_over = False\<rparr>"
  let ?g2 = "\<lparr>width = 8, height = 8, snake = [(3, 3)], direction = (1, 0),
              next_direction = (1, 0), score = 0, food = Some (4, 3), snake_game_over = False\<rparr>"
  let ?g3 = "\<lparr>width = 8, height = 8, snake = [(3, 3), (4, 3), (4, 4)], direction = (0, 1),
              next_direction = (1, 0), score = 2, food = Some (2, 2), snake_game_over = False\<rparr>"
  have first: "move (constant_draws 0) ?g1
     = Inr (True, ?g1\<lparr>direction := (1, 0), snake := (0, 3) # butlast (snake ?g1)\<rparr>,
            constant_draws 0)"
    using snake_move [of ?g1 7 3 "[]" 1 0 "(0, 3)" "constant_draws 0"] by simp
  have second: "\<exists>g' rnd'. move (constant_draws 0) ?g2 = Inr (True, g', rnd')
         \<and> snake g' = [(4, 3), (3, 3)] \<and> score g' = 1 \<and> \<not> snake_game_over g'"
    using snake_move [of ?g2 3 3 "[]" 1 0 "(4, 3)" "constant_draws 0"] by auto
  have third: "move (constant_draws 0) ?g3
     = Inr (False, ?g3\<lparr>direction := (1, 0), snake_game_over := True\<rparr>, constant_draws 0)"
    using snake_move [of ?g3 3 3 "[(4, 3), (4, 4)]" 1 0 "(4, 3)" "constant_draws 0"] by simp
  from first second third show ?thesis by simp
qed

section \<open>Timeouts\<close>


















text \<open>
  No call of the \<^verbatim>\<open>blackjack\<close> command registers a game: the command either raises at the
  lookup of \<^verbatim>\<open>get_balance\<close> or answers with a rejection, leaving \<^verbatim>\<open>self.games\<close> and the bot as
  they were. So no Blackjack game loop runs, and its timeout branch (lines 362 to 374, an
  automatic stand) is never entered.
\<close>

lemma blackjack_never_registers:
  "blackjack method b games rnd author guild bet_arg = Inr (notice, b', games', rnd') \<Longrightarrow>
   games' = games \<and> b' = b \<and> notice \<noteq> Game_started"
  by (auto simp: blackjack_def economy_getattr_def economy_attributes_def try_bind_def Let_def
           split: if_splits)





end
